theory Spec2Isabelle
  imports Main "HOL-Library.Multiset" "HOL-Library.Char_ord" "HOL-Library.List_Lexorder"
begin

section \<open>Exercise tracker: a shallow embedding of index.js\<close>

text \<open>
  The service is one file, \<^verbatim>\<open>index.js\<close>: an identifier generator and four request
  handlers over two PostgreSQL tables. The embedding follows the file from top to bottom.
  What the file takes from its platform (the JavaScript engine, the \<^verbatim>\<open>pg\<close> driver and
  PostgreSQL) is written out as definitions of its own, each with the behaviour it stands
  for, so that the handlers below read like the handlers of the source.
\<close>

subsection \<open>Numbers as strings\<close>

text \<open>
  \<^verbatim>\<open>Number.prototype.toString(16)\<close> and \<^verbatim>\<open>toString()\<close> on integers: lowercase digits,
  most significant first, a leading \<^verbatim>\<open>-\<close> for a negative number.
\<close>

definition hex_digit :: "nat \<Rightarrow> char" where
  "hex_digit d = ''0123456789abcdef'' ! d"

fun hex_nat :: "nat \<Rightarrow> string" where
  "hex_nat n = (if n < 16 then [hex_digit n] else hex_nat (n div 16) @ [hex_digit (n mod 16)])"

declare hex_nat.simps [simp del]

definition toString16 :: "int \<Rightarrow> string" where
  "toString16 n = (if n < 0 then CHR ''-'' # hex_nat (nat (- n)) else hex_nat (nat n))"

definition dec_digit :: "nat \<Rightarrow> char" where
  "dec_digit d = ''0123456789'' ! d"

fun dec_nat :: "nat \<Rightarrow> string" where
  "dec_nat n = (if n < 10 then [dec_digit n] else dec_nat (n div 10) @ [dec_digit (n mod 10)])"

declare dec_nat.simps [simp del]

definition toString10 :: "int \<Rightarrow> string" where
  "toString10 n = (if n < 0 then CHR ''-'' # dec_nat (nat (- n)) else dec_nat (nat n))"

definition is_lower_hex :: "char \<Rightarrow> bool" where
  "is_lower_hex c = (c \<in> set ''0123456789abcdef'')"

subsection \<open>The identifier generator\<close>

text \<open>
  \<^verbatim>\<open>String.prototype.substr(start, length)\<close> for a start inside the string or at its
  end: the characters from \<open>start\<close>, at most \<open>length\<close> of them. Nothing is added when the
  string is shorter.
\<close>

definition substr :: "string \<Rightarrow> nat \<Rightarrow> nat \<Rightarrow> string" where
  "substr s start len = take len (drop start s)"

text \<open>
  \<^verbatim>\<open>Math.random()\<close> is a double in the interval from 0 (included) to 1 (excluded), and
  \<^verbatim>\<open>toString(16)\<close> prints it as \<^verbatim>\<open>0\<close> when it is zero and as \<^verbatim>\<open>0.\<close> followed by
  hexadecimal digits otherwise. The randomness source of the model is the list of the
  digits printed after the point (each below 16): \<open>[8]\<close> is the value 0.5.
\<close>

definition random_toString16 :: "nat list \<Rightarrow> string" where
  "random_toString16 ds = (if ds = [] then ''0'' else ''0.'' @ map hex_digit ds)"

text \<open>
  \<^verbatim>\<open>generateObjectId\<close> (lines 54 to 58). \<open>now\<close> is the value of \<^verbatim>\<open>Date.now()\<close>, in
  milliseconds; \<^verbatim>\<open>Math.floor(now / 1000)\<close> is the floor division of integers.
\<close>

definition generateObjectId :: "int \<Rightarrow> nat list \<Rightarrow> string" where
  "generateObjectId now rnd =
     (let timestamp = toString16 (now div 1000);
          randomValue = substr (random_toString16 rnd) 2 16
      in substr (timestamp @ randomValue) 0 24)"

subsection \<open>Request values\<close>

text \<open>
  A field of a parsed request body is a JavaScript value: absent (\<^verbatim>\<open>undefined\<close>), or
  what a form or a JSON body carries. Numbers are integers here, of a magnitude that
  the language prints in plain decimal digits (below 10^21); JSON numbers with a
  fraction, arrays and nested objects are outside the model. A character is one
  \<open>char\<close>, the character of that code: strings hold the characters of code 1 to 255
  (no NUL, which PostgreSQL does not store, and nothing beyond Latin-1). \<open>truthy\<close> is the
  test that \<^verbatim>\<open>!x\<close> and \<^verbatim>\<open>if (x)\<close> make, \<open>ToString\<close> the conversion that \<^verbatim>\<open>parseInt\<close> and the
  driver apply to a value that is not a string.
\<close>

datatype jsval = JUndefined | JNull | JBool bool | JNum int | JStr string

fun truthy :: "jsval \<Rightarrow> bool" where
  "truthy JUndefined = False"
| "truthy JNull = False"
| "truthy (JBool b) = b"
| "truthy (JNum n) = (n \<noteq> 0)"
| "truthy (JStr s) = (s \<noteq> [])"

fun ToString :: "jsval \<Rightarrow> string" where
  "ToString JUndefined = ''undefined''"
| "ToString JNull = ''null''"
| "ToString (JBool b) = (if b then ''true'' else ''false'')"
| "ToString (JNum n) = toString10 n"
| "ToString (JStr s) = s"

text \<open>
  A query parameter (\<^verbatim>\<open>req.query.from\<close>, \<^verbatim>\<open>to\<close>, \<^verbatim>\<open>limit\<close>) given at most once is
  absent or a string.
\<close>

definition query_value :: "string option \<Rightarrow> jsval" where
  "query_value q = (case q of None \<Rightarrow> JUndefined | Some s \<Rightarrow> JStr s)"

subsection \<open>parseInt\<close>

text \<open>
  \<^verbatim>\<open>parseInt(x)\<close> with no radix: convert to a string, skip leading white space, read an
  optional sign, then an optional \<^verbatim>\<open>0x\<close> (which makes the radix 16), then the longest run
  of digits; \<^verbatim>\<open>NaN\<close> when there is no digit. The result is a number of the language, a
  double: an integer of magnitude up to 2^53 - 1 is that integer exactly
  (\<open>SafeInt\<close>); a larger one is rounded, and what the engine then prints for it is not
  modelled (\<open>BigNumber\<close> keeps the integer read, to which the double is the nearest).
  White space is the white space of the language among the characters of the model: tab,
  line feed, vertical tab, form feed, carriage return, space and the no-break space.
\<close>

datatype jsnumber = NaN | SafeInt int | BigNumber int

definition is_space :: "char \<Rightarrow> bool" where
  "is_space c =
     (c \<in> set [CHR 0x09, CHR 0x0A, CHR 0x0B, CHR 0x0C, CHR 0x0D, CHR 0x20, CHR 0xA0])"

definition to_number :: "int \<Rightarrow> jsnumber" where
  "to_number n = (if \<bar>n\<bar> \<le> 9007199254740991 then SafeInt n else BigNumber n)"

definition digit_of :: "char \<Rightarrow> nat option" where
  "digit_of c =
     (let n = (of_char c :: nat)
      in if 48 \<le> n \<and> n \<le> 57 then Some (n - 48)
         else if 97 \<le> n \<and> n \<le> 102 then Some (n - 87)
         else if 65 \<le> n \<and> n \<le> 70 then Some (n - 55)
         else None)"

definition is_digit :: "nat \<Rightarrow> char \<Rightarrow> bool" where
  "is_digit radix c = (case digit_of c of None \<Rightarrow> False | Some d \<Rightarrow> d < radix)"

definition digits_value :: "nat \<Rightarrow> string \<Rightarrow> nat" where
  "digits_value radix z =
     foldl (\<lambda>acc c. acc * radix + (case digit_of c of None \<Rightarrow> 0 | Some d \<Rightarrow> d)) 0 z"

definition parseInt_str :: "string \<Rightarrow> jsnumber" where
  "parseInt_str inputString =
     (let s = dropWhile is_space inputString;
          (negative, s1) =
             (case s of
                [] \<Rightarrow> (False, [])
              | c # rest \<Rightarrow>
                  if c = CHR ''-'' then (True, rest)
                  else if c = CHR ''+'' then (False, rest)
                  else (False, s));
          (radix, s2) =
             (if take 2 s1 = ''0x'' \<or> take 2 s1 = ''0X'' then (16, drop 2 s1) else (10, s1));
          z = takeWhile (is_digit radix) s2
      in if z = [] then NaN
         else to_number ((if negative then - 1 else 1) * int (digits_value radix z)))"

definition parseInt :: "jsval \<Rightarrow> jsnumber" where
  "parseInt v = parseInt_str (ToString v)"

subsection \<open>Dates\<close>

text \<open>
  A \<^verbatim>\<open>Date\<close> object is an instant, in milliseconds since 1970-01-01T00:00Z, or the
  invalid date. The calendar functions are those of the language (\<^verbatim>\<open>YearFromTime\<close>,
  \<^verbatim>\<open>MonthFromTime\<close>, \<^verbatim>\<open>DateFromTime\<close>, \<^verbatim>\<open>WeekDay\<close>) on day numbers, in the proleptic
  Gregorian calendar, computed era by era (an era is 400 years, 146097 days).
\<close>

datatype jsdate = Invalid | Instant int

definition msPerDay :: int where
  "msPerDay = 86400000"

definition TimeClip :: "int \<Rightarrow> jsdate" where
  "TimeClip t = (if \<bar>t\<bar> \<le> 8640000000000000 then Instant t else Invalid)"

definition days_from_civil :: "int \<Rightarrow> int \<Rightarrow> int \<Rightarrow> int" where
  "days_from_civil y m d =
     (let y' = (if m \<le> 2 then y - 1 else y);
          era = y' div 400;
          yoe = y' - era * 400;
          mp = (m + 9) mod 12;
          doy = (153 * mp + 2) div 5 + d - 1;
          doe = yoe * 365 + yoe div 4 - yoe div 100 + doy
      in era * 146097 + doe - 719468)"

definition civil_from_days :: "int \<Rightarrow> int \<times> int \<times> int" where
  "civil_from_days z =
     (let z' = z + 719468;
          era = z' div 146097;
          doe = z' - era * 146097;
          yoe = (doe - doe div 1460 + doe div 36524 - doe div 146096) div 365;
          doy = doe - (365 * yoe + yoe div 4 - yoe div 100);
          mp = (5 * doy + 2) div 153;
          d = doy - (153 * mp + 2) div 5 + 1;
          m = (if mp < 10 then mp + 3 else mp - 9);
          y = yoe + era * 400 + (if m \<le> 2 then 1 else 0)
      in (y, m, d))"

definition WeekDay :: "int \<Rightarrow> int" where
  "WeekDay day = (day + 4) mod 7"

definition DaysInMonth :: "int \<Rightarrow> int \<Rightarrow> int" where
  "DaysInMonth y m =
     (if m = 2 then (if y mod 4 = 0 \<and> (y mod 100 \<noteq> 0 \<or> y mod 400 = 0) then 29 else 28)
      else if m = 4 \<or> m = 6 \<or> m = 9 \<or> m = 11 then 30
      else 31)"

text \<open>
  \<^verbatim>\<open>new Date(string)\<close>. The language fixes the result for the date-only form
  \<^verbatim>\<open>YYYY-MM-DD\<close> of a calendar date: midnight UTC of that day. Every other string is left
  to the engine, a parameter of the model (\<open>engine_parse\<close>).
\<close>

definition dec_value :: "string \<Rightarrow> nat option" where
  "dec_value s = (if s \<noteq> [] \<and> list_all (is_digit 10) s then Some (digits_value 10 s) else None)"

definition iso_date_only :: "string \<Rightarrow> int option" where
  "iso_date_only s =
     (if length s = 10 \<and> s ! 4 = CHR ''-'' \<and> s ! 7 = CHR ''-'' then
        (case (dec_value (take 4 s), dec_value (take 2 (drop 5 s)), dec_value (drop 8 s)) of
           (Some y, Some m, Some d) \<Rightarrow>
             if 1 \<le> m \<and> m \<le> 12 \<and> 1 \<le> d \<and> int d \<le> DaysInMonth (int y) (int m)
             then Some (days_from_civil (int y) (int m) (int d))
             else None
         | _ \<Rightarrow> None)
      else None)"

text \<open>
  What the model takes from the platform as parameters. \<open>tz_offset\<close> is the offset of the
  server's time zone in minutes east of UTC (the negation of \<^verbatim>\<open>getTimezoneOffset()\<close>),
  taken as constant. \<open>engine_parse\<close> is the engine's \<^verbatim>\<open>new Date(string)\<close> on the strings
  that the language leaves to it. \<open>collation_key\<close> is the sort key that the collation of the
  database gives to a string: \<^verbatim>\<open>ORDER BY\<close> on a text column compares these keys.
  \<open>big_limit\<close> is what becomes of a \<^verbatim>\<open>LIMIT\<close> whose number is beyond 2^53 - 1, where the
  engine rounds and prints it: the statement fails (\<open>None\<close>) or runs with some limit.
\<close>

record platform =
  tz_offset :: int
  engine_parse :: "string \<Rightarrow> jsdate"
  collation_key :: "string \<Rightarrow> string"
  big_limit :: "int \<Rightarrow> nat option"

definition Date_parse :: "platform \<Rightarrow> string \<Rightarrow> jsdate" where
  "Date_parse p s =
     (case iso_date_only s of
        Some day \<Rightarrow> Instant (day * msPerDay)
      | None \<Rightarrow> engine_parse p s)"

fun new_Date :: "platform \<Rightarrow> jsval \<Rightarrow> jsdate" where
  "new_Date p (JStr s) = Date_parse p s"
| "new_Date p (JNum n) = TimeClip n"
| "new_Date p (JBool b) = Instant (if b then 1 else 0)"
| "new_Date p JNull = Instant 0"
| "new_Date p JUndefined = Invalid"

definition local_day :: "platform \<Rightarrow> int \<Rightarrow> int" where
  "local_day p t = (t + tz_offset p * 60000) div msPerDay"

text \<open>
  \<^verbatim>\<open>Date.prototype.toDateString()\<close>: the weekday, the month, the day on two digits and the
  year on at least four, of the date in the server's time zone.
\<close>

definition weekday_name :: "int \<Rightarrow> string" where
  "weekday_name w = [''Sun'', ''Mon'', ''Tue'', ''Wed'', ''Thu'', ''Fri'', ''Sat''] ! nat w"

definition month_name :: "int \<Rightarrow> string" where
  "month_name m =
     [''Jan'', ''Feb'', ''Mar'', ''Apr'', ''May'', ''Jun'',
      ''Jul'', ''Aug'', ''Sep'', ''Oct'', ''Nov'', ''Dec''] ! nat (m - 1)"

definition pad_zero :: "nat \<Rightarrow> string \<Rightarrow> string" where
  "pad_zero n s = replicate (n - length s) CHR ''0'' @ s"

definition date_string :: "int \<Rightarrow> string" where
  "date_string day =
     (case civil_from_days day of
        (y, m, d) \<Rightarrow>
          weekday_name (WeekDay day) @ '' '' @ month_name m @ '' ''
          @ pad_zero 2 (dec_nat (nat d)) @ '' ''
          @ (if y < 0 then ''-'' else []) @ pad_zero 4 (dec_nat (nat \<bar>y\<bar>)))"

fun toDateString :: "platform \<Rightarrow> jsdate \<Rightarrow> string" where
  "toDateString p Invalid = ''Invalid Date''"
| "toDateString p (Instant t) = date_string (local_day p t)"

subsection \<open>The two tables\<close>

text \<open>
  The schema of lines 19 to 36. A table is the list of its rows in insertion order. The
  column \<^verbatim>\<open>date\<close> has the type \<^verbatim>\<open>DATE\<close>, a calendar day: the model stores its day
  number (days since 1970-01-01), whose order is the order of dates.
\<close>

record user_row =
  u_id :: string
  u_username :: string

record exercise_row =
  e_id :: string
  e_user_id :: string
  e_description :: string
  e_duration :: int
  e_date :: int

record db =
  users :: "user_row list"
  exercises :: "exercise_row list"

datatype db_error =
  UniqueViolation | NotNullViolation | ForeignKeyViolation | ValueTooLong
  | InvalidInput | OutOfRange

text \<open>The statements that the handlers send, by kind; a handler returns those it sent.\<close>

datatype stmt =
  SelectUserByUsername | InsertUser | SelectAllUsers | SelectUserById
  | InsertExercise | SelectExercises

subsection \<open>Parameters as the driver binds them\<close>

text \<open>
  The driver sends \<^verbatim>\<open>null\<close> and \<^verbatim>\<open>undefined\<close> as SQL \<^verbatim>\<open>NULL\<close> (here \<open>None\<close>) and any other
  scalar as its string. A \<^verbatim>\<open>Date\<close> is sent as its date and time of day in the server's time
  zone; read as a \<^verbatim>\<open>DATE\<close>, that text gives the local calendar day, and the text of an
  invalid date is rejected. A \<^verbatim>\<open>DATE\<close> read back is the \<^verbatim>\<open>Date\<close> of local midnight of
  that day (instants are not clipped to the range of \<^verbatim>\<open>Date\<close> there).
\<close>

definition pg_text :: "jsval \<Rightarrow> string option" where
  "pg_text v = (case v of JUndefined \<Rightarrow> None | JNull \<Rightarrow> None | _ \<Rightarrow> Some (ToString v))"

definition pg_date :: "platform \<Rightarrow> jsdate \<Rightarrow> db_error + int" where
  "pg_date p d = (case d of Invalid \<Rightarrow> Inl InvalidInput | Instant t \<Rightarrow> Inr (local_day p t))"

definition pg_read_date :: "platform \<Rightarrow> int \<Rightarrow> jsdate" where
  "pg_read_date p day = Instant (day * msPerDay - tz_offset p * 60000)"

subsection \<open>The statements\<close>

text \<open>\<^verbatim>\<open>SELECT username, _id FROM users WHERE username = $1\<close>\<close>

definition select_users_by_username :: "db \<Rightarrow> string option \<Rightarrow> user_row list" where
  "select_users_by_username s name =
     (case name of
        None \<Rightarrow> []
      | Some n \<Rightarrow> filter (\<lambda>r. u_username r = n) (users s))"

text \<open>
  A value stored in a \<^verbatim>\<open>VARCHAR(255)\<close> column: kept when it has at most 255 characters,
  cut to 255 when all the characters beyond are spaces, rejected otherwise.
\<close>

definition varchar255 :: "string \<Rightarrow> db_error + string" where
  "varchar255 v =
     (if length v \<le> 255 then Inr v
      else if list_all (\<lambda>c. c = CHR '' '') (drop 255 v) then Inr (take 255 v)
      else Inl ValueTooLong)"

text \<open>
  \<^verbatim>\<open>INSERT INTO users (_id, username) VALUES ($1, $2) RETURNING username, _id\<close>, under
  the constraints of the table: both columns \<^verbatim>\<open>VARCHAR(255)\<close>, \<^verbatim>\<open>_id\<close> the primary key,
  \<^verbatim>\<open>username\<close> unique and not null.
\<close>

definition insert_user :: "db \<Rightarrow> string \<Rightarrow> string option \<Rightarrow> db_error + (user_row \<times> db)" where
  "insert_user s ident name =
     (case name of
        None \<Rightarrow> Inl NotNullViolation
      | Some n \<Rightarrow>
     (case varchar255 ident of
        Inl e \<Rightarrow> Inl e
      | Inr i \<Rightarrow>
     (case varchar255 n of
        Inl e \<Rightarrow> Inl e
      | Inr n' \<Rightarrow>
          if i \<in> set (map u_id (users s)) \<or> n' \<in> set (map u_username (users s))
          then Inl UniqueViolation
          else (let row = \<lparr>u_id = i, u_username = n'\<rparr>
                in Inr (row, s\<lparr>users := users s @ [row]\<rparr>)))))"

text \<open>
  \<^verbatim>\<open>SELECT username, _id FROM users ORDER BY username\<close>: the rows in the order of the
  collation, that is in the order of the sort keys of their usernames (two usernames of
  the same key, if the collation has such, keep their table order).
\<close>

definition select_all_users :: "platform \<Rightarrow> db \<Rightarrow> user_row list" where
  "select_all_users p s = sort_key (\<lambda>r. collation_key p (u_username r)) (users s)"

text \<open>\<^verbatim>\<open>SELECT * FROM users WHERE _id = $1\<close>\<close>

definition select_user_by_id :: "db \<Rightarrow> string \<Rightarrow> user_row list" where
  "select_user_by_id s ident = filter (\<lambda>r. u_id r = ident) (users s)"

text \<open>
  \<^verbatim>\<open>INSERT INTO exercises (_id, user_id, description, duration, date) VALUES (...)
  RETURNING *\<close>, under the constraints of the table: no column null, \<^verbatim>\<open>duration\<close> a 32-bit
  \<^verbatim>\<open>INTEGER\<close> (the text \<^verbatim>\<open>NaN\<close> is rejected, and so is every number beyond 2^53 - 1,
  however the engine rounds and prints it), \<^verbatim>\<open>_id\<close> and \<^verbatim>\<open>user_id\<close> of type
  \<^verbatim>\<open>VARCHAR(255)\<close>, \<^verbatim>\<open>_id\<close> the primary key, \<^verbatim>\<open>user_id\<close> the \<^verbatim>\<open>_id\<close> of a row of
  \<^verbatim>\<open>users\<close>.
\<close>

definition insert_exercise ::
  "platform \<Rightarrow> db \<Rightarrow> string \<Rightarrow> string \<Rightarrow> string option \<Rightarrow> jsnumber \<Rightarrow> jsdate
     \<Rightarrow> db_error + (exercise_row \<times> db)" where
  "insert_exercise p s ident uid descr dur dt =
     (case descr of
        None \<Rightarrow> Inl NotNullViolation
      | Some de \<Rightarrow>
     (case dur of
        NaN \<Rightarrow> Inl InvalidInput
      | BigNumber n \<Rightarrow> Inl OutOfRange
      | SafeInt du \<Rightarrow>
     (case pg_date p dt of
        Inl e \<Rightarrow> Inl e
      | Inr day \<Rightarrow>
     (case varchar255 ident of
        Inl e \<Rightarrow> Inl e
      | Inr i \<Rightarrow>
     (case varchar255 uid of
        Inl e \<Rightarrow> Inl e
      | Inr u \<Rightarrow>
          if du < - 2147483648 \<or> 2147483647 < du then Inl OutOfRange
          else if i \<in> set (map e_id (exercises s)) then Inl UniqueViolation
          else if u \<notin> set (map u_id (users s)) then Inl ForeignKeyViolation
          else (let row = \<lparr>e_id = i, e_user_id = u, e_description = de,
                             e_duration = du, e_date = day\<rparr>
                in Inr (row, s\<lparr>exercises := exercises s @ [row]\<rparr>)))))))"

text \<open>
  The query that the log handler builds (lines 180 to 201): the user, and the optional
  clauses \<^verbatim>\<open>AND date >= $n\<close>, \<^verbatim>\<open>AND date <= $n\<close> and \<^verbatim>\<open>LIMIT $n\<close> with their parameters.
\<close>

record exercise_query =
  q_user_id :: string
  q_from :: "jsdate option"
  q_to :: "jsdate option"
  q_limit :: "jsnumber option"

text \<open>
  Running it: \<^verbatim>\<open>SELECT description, duration, date FROM exercises WHERE user_id = $1
  [AND date >= $2] [AND date <= $3] ORDER BY date [LIMIT $4]\<close>. A date parameter is
  bound as a \<^verbatim>\<open>DATE\<close>; the limit is a \<^verbatim>\<open>BIGINT\<close> that must not be negative (the text
  \<^verbatim>\<open>NaN\<close> is rejected).

  \<^verbatim>\<open>ORDER BY date\<close> fixes the order of rows of different dates only. The order that
  PostgreSQL gives to rows of the same date is its own choice at each execution (it need
  not be the insertion order, and it can differ with and without \<^verbatim>\<open>LIMIT\<close>): it is the
  argument \<open>tie\<close>, a rank of the rows, and the result is in the order of date, then of rank.
  Every arrangement of the rows in ascending order of date is the result for some \<open>tie\<close>.
\<close>

definition bind_date :: "platform \<Rightarrow> jsdate option \<Rightarrow> db_error + int option" where
  "bind_date p d =
     (case d of
        None \<Rightarrow> Inr None
      | Some dt \<Rightarrow> (case pg_date p dt of Inl e \<Rightarrow> Inl e | Inr day \<Rightarrow> Inr (Some day)))"

definition bind_limit :: "platform \<Rightarrow> jsnumber option \<Rightarrow> db_error + nat option" where
  "bind_limit p l =
     (case l of
        None \<Rightarrow> Inr None
      | Some NaN \<Rightarrow> Inl InvalidInput
      | Some (SafeInt k) \<Rightarrow> if k < 0 then Inl InvalidInput else Inr (Some (nat k))
      | Some (BigNumber k) \<Rightarrow>
          if k < 0 then Inl InvalidInput
          else (case big_limit p k of None \<Rightarrow> Inl OutOfRange | Some k' \<Rightarrow> Inr (Some k')))"

definition date_ge :: "int option \<Rightarrow> exercise_row \<Rightarrow> bool" where
  "date_ge lo e = (case lo of None \<Rightarrow> True | Some d \<Rightarrow> d \<le> e_date e)"

definition date_le :: "int option \<Rightarrow> exercise_row \<Rightarrow> bool" where
  "date_le hi e = (case hi of None \<Rightarrow> True | Some d \<Rightarrow> e_date e \<le> d)"

definition apply_limit :: "nat option \<Rightarrow> 'a list \<Rightarrow> 'a list" where
  "apply_limit l rows = (case l of None \<Rightarrow> rows | Some k \<Rightarrow> take k rows)"

definition order_by_date :: "(exercise_row \<Rightarrow> nat) \<Rightarrow> exercise_row list \<Rightarrow> exercise_row list" where
  "order_by_date tie rows = sort_key e_date (sort_key tie rows)"

definition select_exercises ::
  "platform \<Rightarrow> db \<Rightarrow> exercise_query \<Rightarrow> (exercise_row \<Rightarrow> nat)
     \<Rightarrow> db_error + exercise_row list" where
  "select_exercises p s q tie =
     (case bind_date p (q_from q) of
        Inl e \<Rightarrow> Inl e
      | Inr lo \<Rightarrow>
     (case bind_date p (q_to q) of
        Inl e \<Rightarrow> Inl e
      | Inr hi \<Rightarrow>
     (case bind_limit p (q_limit q) of
        Inl e \<Rightarrow> Inl e
      | Inr lim \<Rightarrow>
          Inr (apply_limit lim
                 (order_by_date tie
                    (filter (\<lambda>e. e_user_id e = q_user_id q \<and> date_ge lo e \<and> date_le hi e)
                       (exercises s)))))))"

subsection \<open>Responses\<close>

datatype json = JString string | JNumber int | JObject "(string \<times> json) list" | JArray "json list"

datatype response = Response (status: nat) (body: json)

definition json_field :: "string \<Rightarrow> json \<Rightarrow> json option" where
  "json_field k j = (case j of JObject kvs \<Rightarrow> map_of kvs k | _ \<Rightarrow> None)"

definition json_keys :: "json \<Rightarrow> string list" where
  "json_keys j = (case j of JObject kvs \<Rightarrow> map fst kvs | _ \<Rightarrow> [])"

definition error_body :: "string \<Rightarrow> json" where
  "error_body msg = JObject [(''error'', JString msg)]"

text \<open>A row of \<^verbatim>\<open>SELECT username, _id\<close> as the object that \<^verbatim>\<open>res.json\<close> sends.\<close>

definition user_json :: "user_row \<Rightarrow> json" where
  "user_json r = JObject [(''username'', JString (u_username r)), (''_id'', JString (u_id r))]"

subsection \<open>The handlers\<close>

text \<open>
  A handler takes the tables and the request and returns the response, the tables after
  it, and the statements it sent. The clock and the random value that
  \<^verbatim>\<open>generateObjectId\<close> reads are arguments (\<open>now\<close>, \<open>rnd\<close>). A statement that fails throws,
  and the handler's \<^verbatim>\<open>catch\<close> answers 500.
\<close>

text \<open>\<^verbatim>\<open>POST /api/users\<close> (lines 72 to 111).\<close>

definition createUser :: "db \<Rightarrow> jsval \<Rightarrow> int \<Rightarrow> nat list \<Rightarrow> response \<times> db \<times> stmt list" where
  "createUser s username now rnd =
     (if \<not> truthy username then
        (Response 400 (error_body ''Username is required''), s, [])
      else
        (case select_users_by_username s (pg_text username) of
           row # _ \<Rightarrow> (Response 200 (user_json row), s, [SelectUserByUsername])
         | [] \<Rightarrow>
             (let userId = generateObjectId now rnd
              in case insert_user s userId (pg_text username) of
                   Inl e \<Rightarrow>
                     (Response 500 (error_body ''Server error''), s,
                      [SelectUserByUsername, InsertUser])
                 | Inr (user, s') \<Rightarrow>
                     (Response 200 (user_json user), s',
                      [SelectUserByUsername, InsertUser]))))"

text \<open>\<^verbatim>\<open>GET /api/users\<close> (lines 114 to 122).\<close>

definition listUsers :: "platform \<Rightarrow> db \<Rightarrow> response \<times> db \<times> stmt list" where
  "listUsers p s =
     (Response 200 (JArray (map user_json (select_all_users p s))), s, [SelectAllUsers])"

text \<open>
  \<^verbatim>\<open>POST /api/users/:_id/exercises\<close> (lines 125 to 164). \<open>now0\<close> is the clock read by
  \<^verbatim>\<open>new Date()\<close>, \<open>now\<close> and \<open>rnd\<close> the clock and the random value read by
  \<^verbatim>\<open>generateObjectId\<close>.
\<close>

definition exercise_json :: "platform \<Rightarrow> user_row \<Rightarrow> exercise_row \<Rightarrow> json" where
  "exercise_json p user exercise =
     JObject [(''_id'', JString (u_id user)),
              (''username'', JString (u_username user)),
              (''date'', JString (toDateString p (pg_read_date p (e_date exercise)))),
              (''duration'', JNumber (e_duration exercise)),
              (''description'', JString (e_description exercise))]"

definition addExercise ::
  "platform \<Rightarrow> db \<Rightarrow> string \<Rightarrow> jsval \<Rightarrow> jsval \<Rightarrow> jsval \<Rightarrow> int \<Rightarrow> int \<Rightarrow> nat list
     \<Rightarrow> response \<times> db \<times> stmt list" where
  "addExercise p s userId description duration date now0 now rnd =
     (if \<not> truthy description \<or> \<not> truthy duration then
        (Response 400 (error_body ''Description and duration are required''), s, [])
      else
        (let exerciseDate = (if truthy date then new_Date p date else Instant now0)
         in case select_user_by_id s userId of
              [] \<Rightarrow> (Response 404 (error_body ''User not found''), s, [SelectUserById])
            | user # _ \<Rightarrow>
                (let exerciseId = generateObjectId now rnd
                 in case insert_exercise p s exerciseId userId (pg_text description)
                           (parseInt duration) exerciseDate of
                      Inl e \<Rightarrow>
                        (Response 500 (error_body ''Server error''), s,
                         [SelectUserById, InsertExercise])
                    | Inr (exercise, s') \<Rightarrow>
                        (Response 200 (exercise_json p user exercise), s',
                         [SelectUserById, InsertExercise]))))"

text \<open>
  \<^verbatim>\<open>GET /api/users/:_id/logs\<close> (lines 167 to 222). \<open>tie\<close> is the order that this execution
  of the query gives to rows of the same date.
\<close>

definition build_log_query ::
  "platform \<Rightarrow> string \<Rightarrow> string option \<Rightarrow> string option \<Rightarrow> string option \<Rightarrow> exercise_query" where
  "build_log_query p userId from to limit =
     \<lparr>q_user_id = userId,
      q_from = (if truthy (query_value from) then Some (new_Date p (query_value from)) else None),
      q_to = (if truthy (query_value to) then Some (new_Date p (query_value to)) else None),
      q_limit = (if truthy (query_value limit) then Some (parseInt (query_value limit)) else None)\<rparr>"

definition log_entry :: "platform \<Rightarrow> exercise_row \<Rightarrow> json" where
  "log_entry p exercise =
     JObject [(''description'', JString (e_description exercise)),
              (''duration'', JNumber (e_duration exercise)),
              (''date'', JString (toDateString p (pg_read_date p (e_date exercise))))]"

definition log_json :: "platform \<Rightarrow> user_row \<Rightarrow> exercise_row list \<Rightarrow> json" where
  "log_json p user rows =
     (let log = map (log_entry p) rows
      in JObject [(''_id'', JString (u_id user)),
                  (''username'', JString (u_username user)),
                  (''count'', JNumber (int (length log))),
                  (''log'', JArray log)])"

definition getLogs ::
  "platform \<Rightarrow> db \<Rightarrow> string \<Rightarrow> string option \<Rightarrow> string option \<Rightarrow> string option
     \<Rightarrow> (exercise_row \<Rightarrow> nat) \<Rightarrow> response \<times> db \<times> stmt list" where
  "getLogs p s userId from to limit tie =
     (case select_user_by_id s userId of
        [] \<Rightarrow> (Response 404 (error_body ''User not found''), s, [SelectUserById])
      | user # _ \<Rightarrow>
          (case select_exercises p s (build_log_query p userId from to limit) tie of
             Inl e \<Rightarrow>
               (Response 500 (error_body ''Server error''), s, [SelectUserById, SelectExercises])
           | Inr rows \<Rightarrow>
               (Response 200 (log_json p user rows), s, [SelectUserById, SelectExercises])))"

subsection \<open>Invariant of the users table and example data\<close>

text \<open>
  What the primary key and the \<^verbatim>\<open>UNIQUE\<close> constraint of \<^verbatim>\<open>users\<close> maintain: no two rows
  with the same \<^verbatim>\<open>_id\<close>, no two with the same \<^verbatim>\<open>username\<close>.
\<close>

definition users_ok :: "db \<Rightarrow> bool" where
  "users_ok s = (distinct (map u_id (users s)) \<and> distinct (map u_username (users s)))"

text \<open>
  A server on UTC and one five hours west of it. On both the engine rejects every string
  that is not a calendar date, the collation compares the characters' codes, and a limit
  beyond 2^53 - 1 makes the statement fail.
\<close>

definition example_platform :: platform where
  "example_platform =
     \<lparr>tz_offset = 0, engine_parse = (\<lambda>s. Invalid), collation_key = (\<lambda>s. s),
      big_limit = (\<lambda>k. None)\<rparr>"

definition example_platform_west :: platform where
  "example_platform_west =
     \<lparr>tz_offset = - 300, engine_parse = (\<lambda>s. Invalid), collation_key = (\<lambda>s. s),
      big_limit = (\<lambda>k. None)\<rparr>"

text \<open>
  Two orders among rows of the same date: none of its own (such rows keep their table
  order), and the reverse alphabetical order of the descriptions' first letters.
\<close>

definition example_tie :: "exercise_row \<Rightarrow> nat" where
  "example_tie e = 0"

definition example_tie_reverse :: "exercise_row \<Rightarrow> nat" where
  "example_tie_reverse e =
     (case e_description e of [] \<Rightarrow> 0 | c # _ \<Rightarrow> 255 - (of_char c :: nat))"

definition example_db :: db where
  "example_db =
     \<lparr>users = [\<lparr>u_id = ''659200808'', u_username = ''alice''\<rparr>], exercises = []\<rparr>"

text \<open>
  Three exercises of the user alice, dated 2024-01-01, 2024-01-15 and 2024-02-01, and two
  states of the tables that hold them, inserted in two different orders.
\<close>

definition example_run :: exercise_row where
  "example_run = \<lparr>e_id = ''659352004c'', e_user_id = ''659200808'', e_description = ''run'',
                    e_duration = 30, e_date = 19723\<rparr>"

definition example_rowing :: exercise_row where
  "example_rowing = \<lparr>e_id = ''65a4758a1'', e_user_id = ''659200808'', e_description = ''row'',
                       e_duration = 45, e_date = 19737\<rparr>"

definition example_swim :: exercise_row where
  "example_swim = \<lparr>e_id = ''65bae0003'', e_user_id = ''659200808'', e_description = ''swim'',
                     e_duration = 20, e_date = 19754\<rparr>"

definition example_walk :: exercise_row where
  "example_walk = \<lparr>e_id = ''65a4758b7'', e_user_id = ''659200808'', e_description = ''walk'',
                     e_duration = 25, e_date = 19737\<rparr>"

definition example_log_db :: db where
  "example_log_db =
     \<lparr>users = [\<lparr>u_id = ''659200808'', u_username = ''alice''\<rparr>],
      exercises = [example_swim, example_run, example_rowing]\<rparr>"

definition example_log_db_reordered :: db where
  "example_log_db_reordered =
     \<lparr>users = [\<lparr>u_id = ''659200808'', u_username = ''alice''\<rparr>],
      exercises = [example_rowing, example_swim, example_run]\<rparr>"

text \<open>
  Tables in which two exercises, \<^verbatim>\<open>row\<close> and \<^verbatim>\<open>walk\<close>, have the same date.
\<close>

definition example_tie_db :: db where
  "example_tie_db =
     \<lparr>users = [\<lparr>u_id = ''659200808'', u_username = ''alice''\<rparr>],
      exercises = [example_run, example_rowing, example_walk]\<rparr>"

section \<open>Properties\<close>

subsection \<open>The identifier generator\<close>

lemma length_generateObjectId:
  "length (generateObjectId now rnd) =
     min 24 (length (toString16 (now div 1000)) + min 16 (length rnd))"
  by (auto simp: generateObjectId_def substr_def random_toString16_def Let_def min_def)

lemma hex_digit_lower: "d < 16 \<Longrightarrow> is_lower_hex (hex_digit d)"
proof -
  assume "d < 16"
  then have "d = 0 \<or> d = 1 \<or> d = 2 \<or> d = 3 \<or> d = 4 \<or> d = 5 \<or> d = 6 \<or> d = 7
      \<or> d = 8 \<or> d = 9 \<or> d = 10 \<or> d = 11 \<or> d = 12 \<or> d = 13 \<or> d = 14 \<or> d = 15"
    by arith
  then show ?thesis
    by (auto simp: hex_digit_def is_lower_hex_def)
qed

lemma hex_nat_lower: "list_all is_lower_hex (hex_nat n)"
proof (induction n rule: hex_nat.induct)
  case (1 n)
  show ?case
  proof (cases "n < 16")
    case True
    then show ?thesis
      by (subst hex_nat.simps) (simp add: hex_digit_lower)
  next
    case False
    have "is_lower_hex (hex_digit (n mod 16))"
      by (rule hex_digit_lower) simp
    with False 1 show ?thesis
      by (subst hex_nat.simps) simp
  qed
qed

lemma generateObjectId_lower_hex:
  assumes "0 \<le> now" and "\<forall>d \<in> set rnd. d < 16"
  shows "list_all is_lower_hex (generateObjectId now rnd) \<and> length (generateObjectId now rnd) \<le> 24"
proof -
  have "0 \<le> now div 1000"
    using assms(1) by simp
  then have ts: "list_all is_lower_hex (toString16 (now div 1000))"
    by (simp add: toString16_def hex_nat_lower)
  have rv: "list_all is_lower_hex (substr (random_toString16 rnd) 2 16)"
    using assms(2)
    by (auto simp: substr_def random_toString16_def list_all_iff hex_digit_lower
        dest!: in_set_takeD)
  have "list_all is_lower_hex
          (take 24 (toString16 (now div 1000) @ substr (random_toString16 rnd) 2 16))"
    using ts rv by (auto simp: list_all_iff dest!: in_set_takeD)
  then show ?thesis
    by (simp add: generateObjectId_def substr_def Let_def)
qed

lemma varchar255_short: "length v \<le> 255 \<Longrightarrow> varchar255 v = Inr v"
  by (simp add: varchar255_def)

lemma varchar255_generateObjectId:
  "varchar255 (generateObjectId now rnd) = Inr (generateObjectId now rnd)"
  by (rule varchar255_short) (simp add: length_generateObjectId)

lemma hex_nat_1704067200: "hex_nat 1704067200 = ''65920080''"
  by (simp add: hex_nat.simps hex_digit_def)

lemma generateObjectId_half: "generateObjectId 1704067200000 [8] = ''659200808''"
  by (simp add: generateObjectId_def substr_def random_toString16_def toString16_def
      hex_nat_1704067200 hex_digit_def)

text \<open>
  C1. The generator does not always return 24 characters: \<^verbatim>\<open>substr\<close> cuts but never pads.
  At the clock value 1704067200000 and the random value 0.5, printed \<^verbatim>\<open>0.8\<close>, the
  identifier is the eight digits of the timestamp and one random digit, nine characters.
\<close>

theorem generateObjectId_short:
  "generateObjectId 1704067200000 [8] = ''659200808''
   \<and> length (generateObjectId 1704067200000 [8]) = 9"
  by (simp add: generateObjectId_half)

subsection \<open>Evaluation at the example data\<close>

lemma generateObjectId_example: "generateObjectId 1704153600000 [4, 12] = ''659352004c''"
  by (simp add: generateObjectId_def substr_def random_toString16_def toString16_def
      hex_nat.simps hex_digit_def)

lemma digit_of_simps:
  "digit_of CHR ''0'' = Some 0" "digit_of CHR ''1'' = Some 1" "digit_of CHR ''2'' = Some 2"
  "digit_of CHR ''3'' = Some 3" "digit_of CHR ''4'' = Some 4" "digit_of CHR ''5'' = Some 5"
  "digit_of CHR ''6'' = Some 6" "digit_of CHR ''7'' = Some 7" "digit_of CHR ''8'' = Some 8"
  "digit_of CHR ''9'' = Some 9" "digit_of CHR ''-'' = None"
  by (simp_all add: digit_of_def)

lemma dec_value_examples:
  "dec_value ''2024'' = Some 2024" "dec_value ''01'' = Some 1"
  by (simp_all add: dec_value_def is_digit_def digits_value_def digit_of_simps)

lemma days_from_civil_example: "days_from_civil 2024 1 1 = 19723"
  by (simp add: days_from_civil_def)

lemma iso_date_only_example: "iso_date_only ''2024-01-01'' = Some 19723"
  by (simp add: iso_date_only_def dec_value_examples DaysInMonth_def days_from_civil_example)

lemma civil_from_days_19723: "civil_from_days 19723 = (2024, 1, 1)"
  unfolding civil_from_days_def Let_def by simp

lemma civil_from_days_19722: "civil_from_days 19722 = (2023, 12, 31)"
  unfolding civil_from_days_def Let_def by simp

lemma dec_nat_Suc_0: "dec_nat (Suc 0) = ''1''"
  by (subst dec_nat.simps) (simp add: dec_digit_def)

lemma dec_nat_examples:
  "dec_nat 31 = ''31''" "dec_nat 2023 = ''2023''" "dec_nat 2024 = ''2024''"
  "dec_nat 30 = ''30''"
  by (simp_all add: dec_nat.simps dec_digit_def)

lemma date_string_19723: "date_string 19723 = ''Mon Jan 01 2024''"
  by (simp add: date_string_def civil_from_days_19723 WeekDay_def weekday_name_def
      month_name_def pad_zero_def dec_nat_examples dec_nat_Suc_0)

lemma date_string_19722: "date_string 19722 = ''Sun Dec 31 2023''"
  by (simp add: date_string_def civil_from_days_19722 WeekDay_def weekday_name_def
      month_name_def pad_zero_def dec_nat_examples dec_nat_Suc_0)

lemma parseInt_30: "parseInt (JNum 30) = SafeInt 30"
  by (simp add: parseInt_def parseInt_str_def toString10_def dec_nat_examples is_space_def
      is_digit_def digits_value_def digit_of_simps to_number_def)

lemma addExercise_example:
  "addExercise example_platform example_db ''659200808'' (JStr ''run'') (JNum 30)
      (JStr ''2024-01-01'') 0 1704153600000 [4, 12]
    = (Response 200
         (JObject [(''_id'', JString ''659200808''), (''username'', JString ''alice''),
                   (''date'', JString ''Mon Jan 01 2024''), (''duration'', JNumber 30),
                   (''description'', JString ''run'')]),
       example_db\<lparr>exercises := [\<lparr>e_id = ''659352004c'', e_user_id = ''659200808'',
          e_description = ''run'', e_duration = 30, e_date = 19723\<rparr>]\<rparr>,
       [SelectUserById, InsertExercise])"
  by (simp add: addExercise_def example_db_def example_platform_def select_user_by_id_def
      generateObjectId_example insert_exercise_def pg_text_def parseInt_30 Date_parse_def
      iso_date_only_example pg_date_def local_day_def msPerDay_def exercise_json_def
      pg_read_date_def date_string_19723 varchar255_def Let_def)

subsection \<open>Adding an exercise: validation, lookup, response\<close>

lemma select_user_by_id_Cons:
  "select_user_by_id s ident = user # rest \<Longrightarrow> u_id user = ident \<and> user \<in> set (users s)"
proof -
  assume "select_user_by_id s ident = user # rest"
  then have "user \<in> set (filter (\<lambda>r. u_id r = ident) (users s))"
    by (simp add: select_user_by_id_def)
  then show ?thesis by simp
qed

lemma insert_exercise_Inr:
  assumes "insert_exercise p s ident uid descr dur dt = Inr (row, s')"
  shows "varchar255 ident = Inr (e_id row) \<and> varchar255 uid = Inr (e_user_id row)
         \<and> descr = Some (e_description row) \<and> dur = SafeInt (e_duration row)
         \<and> pg_date p dt = Inr (e_date row)
         \<and> exercises s' = exercises s @ [row] \<and> users s' = users s"
  using assms
  by (auto simp: insert_exercise_def Let_def
      split: option.splits sum.splits if_splits jsnumber.splits)

lemma addExercise_200:
  assumes "addExercise p s userId description duration date now0 now rnd
             = (Response 200 b, s', t)"
  shows "\<exists>user rest exercise. select_user_by_id s userId = user # rest
          \<and> insert_exercise p s (generateObjectId now rnd) userId (pg_text description)
                (parseInt duration) (if truthy date then new_Date p date else Instant now0)
              = Inr (exercise, s')
          \<and> b = exercise_json p user exercise"
  using assms
  by (auto simp: addExercise_def Let_def split: if_splits list.splits sum.splits prod.splits)

text \<open>
  C3. Adding an exercise for a user id that no row of \<^verbatim>\<open>users\<close> has, with a description
  and a duration that pass the test of line 129, answers 404; the tables are unchanged
  and the only statement sent is the lookup of the user.
\<close>

theorem addExercise_unknown_user:
  assumes "truthy description" and "truthy duration"
    and "\<forall>r \<in> set (users s). u_id r \<noteq> userId"
  shows "addExercise p s userId description duration date now0 now rnd
           = (Response 404 (error_body ''User not found''), s, [SelectUserById])"
proof -
  have "select_user_by_id s userId = []"
    using assms(3) by (simp add: select_user_by_id_def filter_empty_conv)
  then show ?thesis
    using assms(1,2) by (simp add: addExercise_def)
qed

theorem addExercise_unknown_user_witness:
  "truthy (JStr ''run'') \<and> truthy (JNum 30)
   \<and> ''0123456789abcdef01234567'' \<notin> set (map u_id (users example_db))
   \<and> addExercise example_platform example_db ''0123456789abcdef01234567''
        (JStr ''run'') (JNum 30) JUndefined 0 0 []
       = (Response 404 (error_body ''User not found''), example_db, [SelectUserById])"
  using addExercise_unknown_user [of "JStr ''run''" "JNum 30" example_db
      "''0123456789abcdef01234567''" example_platform JUndefined 0 0 "[]"]
  by (simp add: example_db_def)

text \<open>
  C9. When the description or the duration fails the test of line 129, the answer is 400
  whatever the user id is: the tables are unchanged and no statement is sent, so the
  lookup that answers 404 is not reached.
\<close>

theorem addExercise_validation_first:
  assumes "\<not> truthy description \<or> \<not> truthy duration"
  shows "addExercise p s userId description duration date now0 now rnd
           = (Response 400 (error_body ''Description and duration are required''), s, [])"
  using assms by (auto simp: addExercise_def)

theorem addExercise_validation_first_witness:
  "\<not> truthy JUndefined
   \<and> ''0123456789abcdef01234567'' \<notin> set (map u_id (users example_db))
   \<and> addExercise example_platform example_db ''0123456789abcdef01234567''
        (JStr ''run'') JUndefined JUndefined 0 0 []
       = (Response 400 (error_body ''Description and duration are required''), example_db, [])"
  using addExercise_validation_first [of "JStr ''run''" JUndefined example_platform example_db
      "''0123456789abcdef01234567''" JUndefined 0 0 "[]"]
  by (simp add: example_db_def)

text \<open>
  C10. In a 200 response of add-exercise the field \<^verbatim>\<open>_id\<close> is the user id of the path.
  The row appended to \<^verbatim>\<open>exercises\<close> carries the generated identifier as its \<^verbatim>\<open>_id\<close>, and
  the response field is the identifier of the new row exactly when the generator returns
  the user's own id. Nothing excludes that: \<^verbatim>\<open>exercises\<close> has a primary key of its own, and
  for the user \<^verbatim>\<open>659200808\<close> the clock value 1704067200000 with the random digit 8 yields
  \<^verbatim>\<open>659200808\<close> again, so that the response carries the id of the exercise as well.
\<close>

theorem addExercise_response_id:
  assumes "addExercise p s userId description duration date now0 now rnd
             = (Response 200 b, s', t)"
  shows "json_field ''_id'' b = Some (JString userId)
         \<and> exercises s' = exercises s @ [last (exercises s')]
         \<and> e_id (last (exercises s')) = generateObjectId now rnd
         \<and> (json_field ''_id'' b = Some (JString (e_id (last (exercises s'))))) =
             (generateObjectId now rnd = userId)"
proof -
  from addExercise_200 [OF assms] obtain user rest exercise where
    sel: "select_user_by_id s userId = user # rest" and
    ins: "insert_exercise p s (generateObjectId now rnd) userId (pg_text description)
            (parseInt duration) (if truthy date then new_Date p date else Instant now0)
          = Inr (exercise, s')" and
    b: "b = exercise_json p user exercise"
    by blast
  have uid: "u_id user = userId"
    using select_user_by_id_Cons [OF sel] by simp
  have row: "e_id exercise = generateObjectId now rnd"
    "exercises s' = exercises s @ [exercise]"
    using insert_exercise_Inr [OF ins] by (simp_all add: varchar255_generateObjectId)
  have fld: "json_field ''_id'' b = Some (JString userId)"
    by (simp add: b exercise_json_def json_field_def uid)
  show ?thesis
    using fld row by auto
qed

theorem addExercise_response_id_witness:
  "addExercise example_platform example_db ''659200808'' (JStr ''run'') (JNum 30)
      (JStr ''2024-01-01'') 0 1704153600000 [4, 12]
    = (Response 200
         (JObject [(''_id'', JString ''659200808''), (''username'', JString ''alice''),
                   (''date'', JString ''Mon Jan 01 2024''), (''duration'', JNumber 30),
                   (''description'', JString ''run'')]),
       example_db\<lparr>exercises := [\<lparr>e_id = ''659352004c'', e_user_id = ''659200808'',
          e_description = ''run'', e_duration = 30, e_date = 19723\<rparr>]\<rparr>,
       [SelectUserById, InsertExercise])
   \<and> generateObjectId 1704153600000 [4, 12] \<noteq> ''659200808''
   \<and> json_field ''_id''
        (JObject [(''_id'', JString ''659200808''), (''username'', JString ''alice''),
                  (''date'', JString ''Mon Jan 01 2024''), (''duration'', JNumber 30),
                  (''description'', JString ''run'')])
       = Some (JString ''659200808'')
   \<and> json_field ''_id''
        (JObject [(''_id'', JString ''659200808''), (''username'', JString ''alice''),
                  (''date'', JString ''Mon Jan 01 2024''), (''duration'', JNumber 30),
                  (''description'', JString ''run'')])
       \<noteq> Some (JString ''659352004c'')"
  using addExercise_response_id [OF addExercise_example]
  by (simp add: addExercise_example generateObjectId_example)

theorem addExercise_response_id_counterexample:
  "addExercise example_platform example_db ''659200808'' (JStr ''run'') (JNum 30)
      (JStr ''2024-01-01'') 0 1704067200000 [8]
    = (Response 200
         (JObject [(''_id'', JString ''659200808''), (''username'', JString ''alice''),
                   (''date'', JString ''Mon Jan 01 2024''), (''duration'', JNumber 30),
                   (''description'', JString ''run'')]),
       example_db\<lparr>exercises := [\<lparr>e_id = ''659200808'', e_user_id = ''659200808'',
          e_description = ''run'', e_duration = 30, e_date = 19723\<rparr>]\<rparr>,
       [SelectUserById, InsertExercise])
   \<and> json_field ''_id''
        (body (fst (addExercise example_platform example_db ''659200808'' (JStr ''run'')
                      (JNum 30) (JStr ''2024-01-01'') 0 1704067200000 [8])))
       = Some (JString
           (e_id (last (exercises (fst (snd
              (addExercise example_platform example_db ''659200808'' (JStr ''run'')
                 (JNum 30) (JStr ''2024-01-01'') 0 1704067200000 [8])))))))"
proof -
  have run: "addExercise example_platform example_db ''659200808'' (JStr ''run'') (JNum 30)
      (JStr ''2024-01-01'') 0 1704067200000 [8]
    = (Response 200
         (JObject [(''_id'', JString ''659200808''), (''username'', JString ''alice''),
                   (''date'', JString ''Mon Jan 01 2024''), (''duration'', JNumber 30),
                   (''description'', JString ''run'')]),
       example_db\<lparr>exercises := [\<lparr>e_id = ''659200808'', e_user_id = ''659200808'',
          e_description = ''run'', e_duration = 30, e_date = 19723\<rparr>]\<rparr>,
       [SelectUserById, InsertExercise])"
    by (simp add: addExercise_def example_db_def example_platform_def select_user_by_id_def
        generateObjectId_half insert_exercise_def pg_text_def parseInt_30 Date_parse_def
        iso_date_only_example pg_date_def local_day_def msPerDay_def exercise_json_def
        pg_read_date_def date_string_19723 varchar255_def Let_def)
  show ?thesis
    unfolding run by (simp add: json_field_def)
qed

subsection \<open>Creating and listing users\<close>

lemma filter_distinct_key_one:
  assumes "distinct (map f xs)" and "x \<in> set xs"
  shows "filter (\<lambda>r. f r = f x) xs = [x]"
  using assms
proof (induction xs)
  case Nil
  then show ?case by simp
next
  case (Cons a xs)
  show ?case
  proof (cases "a = x")
    case True
    have "\<forall>r \<in> set xs. f r \<noteq> f x"
      using Cons.prems(1) True by (auto simp: image_iff)
    then have "filter (\<lambda>r. f r = f x) xs = []"
      by (simp add: filter_empty_conv)
    with True show ?thesis by simp
  next
    case False
    then have "x \<in> set xs" using Cons.prems(2) by simp
    moreover have "f a \<noteq> f x"
      using Cons.prems(1) \<open>x \<in> set xs\<close> by (auto simp: image_iff)
    ultimately show ?thesis using Cons by simp
  qed
qed

lemma insert_user_Inr:
  assumes "insert_user s ident name = Inr (row, s')"
  shows "(\<exists>n. name = Some n \<and> varchar255 n = Inr (u_username row))
         \<and> varchar255 ident = Inr (u_id row)
         \<and> users s' = users s @ [row] \<and> exercises s' = exercises s
         \<and> u_id row \<notin> set (map u_id (users s))
         \<and> u_username row \<notin> set (map u_username (users s))"
  using assms
  by (auto simp: insert_user_def Let_def split: option.splits sum.splits if_splits)

lemma insert_user_users_ok:
  assumes "users_ok s" and "insert_user s ident name = Inr (row, s')"
  shows "users_ok s'"
  using assms(1) insert_user_Inr [OF assms(2)]
  by (auto simp: users_ok_def)

lemma createUser_200:
  assumes "createUser s username now rnd = (Response 200 b, s', t)"
  shows "(\<exists>row rest. select_users_by_username s (pg_text username) = row # rest
            \<and> b = user_json row \<and> s' = s \<and> t = [SelectUserByUsername])
         \<or> (select_users_by_username s (pg_text username) = []
            \<and> (\<exists>row. insert_user s (generateObjectId now rnd) (pg_text username) = Inr (row, s')
                  \<and> b = user_json row \<and> t = [SelectUserByUsername, InsertUser]))"
  using assms
  by (auto simp: createUser_def Let_def split: if_splits list.splits sum.splits prod.splits)

lemma createUser_users_ok:
  assumes "users_ok s" and "createUser s username now rnd = (r, s', t)"
  shows "users_ok s'"
  using assms
  by (auto simp: createUser_def Let_def insert_user_users_ok
      split: if_splits list.splits sum.splits prod.splits)

lemma createUser_example:
  "createUser example_db (JStr ''bob'') 1704153600000 [4, 12]
     = (Response 200 (JObject [(''username'', JString ''bob''), (''_id'', JString ''659352004c'')]),
        example_db\<lparr>users := [\<lparr>u_id = ''659200808'', u_username = ''alice''\<rparr>,
                                 \<lparr>u_id = ''659352004c'', u_username = ''bob''\<rparr>]\<rparr>,
        [SelectUserByUsername, InsertUser])"
  by (simp add: createUser_def example_db_def select_users_by_username_def pg_text_def
      generateObjectId_example insert_user_def user_json_def varchar255_def Let_def)

lemma createUser_example_again:
  "createUser (example_db\<lparr>users := [\<lparr>u_id = ''659200808'', u_username = ''alice''\<rparr>,
                                      \<lparr>u_id = ''659352004c'', u_username = ''bob''\<rparr>]\<rparr>)
      (JStr ''bob'') 1704153660000 [2]
     = (Response 200 (JObject [(''username'', JString ''bob''), (''_id'', JString ''659352004c'')]),
        example_db\<lparr>users := [\<lparr>u_id = ''659200808'', u_username = ''alice''\<rparr>,
                                 \<lparr>u_id = ''659352004c'', u_username = ''bob''\<rparr>]\<rparr>,
        [SelectUserByUsername])"
  by (simp add: createUser_def example_db_def select_users_by_username_def pg_text_def
      user_json_def)

lemma users_ok_example_db: "users_ok example_db"
  by (simp add: users_ok_def example_db_def)

lemma listUsers_example:
  "listUsers example_platform example_db
     = (Response 200 (JArray [JObject [(''username'', JString ''alice''),
                                       (''_id'', JString ''659200808'')]]),
        example_db, [SelectAllUsers])"
  by (simp add: listUsers_def select_all_users_def example_db_def user_json_def)

text \<open>
  C2. Creating a user twice. For a username \<open>u\<close> of at most 255 characters, if the first
  call answers 200, the second call for \<open>u\<close> answers 200 with the same body, hence the
  same \<^verbatim>\<open>_id\<close>, whatever the clock and the random value are; it leaves the tables as the
  first call left them, and \<^verbatim>\<open>users\<close> then holds exactly one row with the username \<open>u\<close>,
  the row of that identifier.
\<close>

theorem createUser_idempotent:
  assumes ok: "users_ok s"
    and len: "length u \<le> 255"
    and first: "createUser s (JStr u) now1 rnd1 = (Response 200 b1, s1, t1)"
    and second: "createUser s1 (JStr u) now2 rnd2 = (r2, s2, t2)"
  shows "\<exists>i. b1 = JObject [(''username'', JString u), (''_id'', JString i)]
           \<and> r2 = Response 200 b1 \<and> s2 = s1
           \<and> filter (\<lambda>r. u_username r = u) (users s2) = [\<lparr>u_id = i, u_username = u\<rparr>]"
proof -
  have tr: "truthy (JStr u)"
    using first by (auto simp: createUser_def split: if_splits)
  have ok1: "users_ok s1"
    using createUser_users_ok [OF ok first] .
  have "\<exists>row. row \<in> set (users s1) \<and> u_username row = u \<and> b1 = user_json row"
  proof -
    from createUser_200 [OF first] show ?thesis
    proof (elim disjE exE conjE)
      fix row rest
      assume sel: "select_users_by_username s (pg_text (JStr u)) = row # rest"
        and "b1 = user_json row" "s1 = s"
      from sel have "row \<in> set (filter (\<lambda>r. u_username r = u) (users s))"
        by (simp add: select_users_by_username_def pg_text_def)
      then show ?thesis using \<open>b1 = user_json row\<close> \<open>s1 = s\<close> by auto
    next
      fix row
      assume ins: "insert_user s (generateObjectId now1 rnd1) (pg_text (JStr u)) = Inr (row, s1)"
        and "b1 = user_json row"
      from insert_user_Inr [OF ins] have "u_username row = u" "users s1 = users s @ [row]"
        using len by (simp_all add: pg_text_def varchar255_short)
      then show ?thesis using \<open>b1 = user_json row\<close> by auto
    qed
  qed
  then obtain row where row: "row \<in> set (users s1)" "u_username row = u" "b1 = user_json row"
    by blast
  have flt: "filter (\<lambda>r. u_username r = u) (users s1) = [row]"
    using filter_distinct_key_one [of u_username "users s1" row] ok1 row(1,2)
    by (simp add: users_ok_def)
  have sel1: "select_users_by_username s1 (pg_text (JStr u)) = [row]"
    using flt by (simp add: select_users_by_username_def pg_text_def)
  have snd: "createUser s1 (JStr u) now2 rnd2 = (Response 200 b1, s1, [SelectUserByUsername])"
    using tr sel1 row(3) by (simp add: createUser_def)
  have roweq: "row = \<lparr>u_id = u_id row, u_username = u\<rparr>"
    using row(2) by simp
  have "b1 = JObject [(''username'', JString u), (''_id'', JString (u_id row))]"
    using row(2,3) by (simp add: user_json_def)
  moreover have "r2 = Response 200 b1" "s2 = s1"
    using snd second by simp_all
  moreover have "filter (\<lambda>r. u_username r = u) (users s2) = [\<lparr>u_id = u_id row, u_username = u\<rparr>]"
    using flt roweq \<open>s2 = s1\<close> by simp
  ultimately show ?thesis by blast
qed

theorem createUser_idempotent_witness:
  "users_ok example_db \<and> length ''bob'' \<le> 255
   \<and> createUser example_db (JStr ''bob'') 1704153600000 [4, 12]
     = (Response 200 (JObject [(''username'', JString ''bob''), (''_id'', JString ''659352004c'')]),
        example_db\<lparr>users := [\<lparr>u_id = ''659200808'', u_username = ''alice''\<rparr>,
                                 \<lparr>u_id = ''659352004c'', u_username = ''bob''\<rparr>]\<rparr>,
        [SelectUserByUsername, InsertUser])
   \<and> createUser (example_db\<lparr>users := [\<lparr>u_id = ''659200808'', u_username = ''alice''\<rparr>,
                                      \<lparr>u_id = ''659352004c'', u_username = ''bob''\<rparr>]\<rparr>)
      (JStr ''bob'') 1704153660000 [2]
     = (Response 200 (JObject [(''username'', JString ''bob''), (''_id'', JString ''659352004c'')]),
        example_db\<lparr>users := [\<lparr>u_id = ''659200808'', u_username = ''alice''\<rparr>,
                                 \<lparr>u_id = ''659352004c'', u_username = ''bob''\<rparr>]\<rparr>,
        [SelectUserByUsername])
   \<and> filter (\<lambda>r. u_username r = ''bob'')
        (users (example_db\<lparr>users := [\<lparr>u_id = ''659200808'', u_username = ''alice''\<rparr>,
                                       \<lparr>u_id = ''659352004c'', u_username = ''bob''\<rparr>]\<rparr>))
     = [\<lparr>u_id = ''659352004c'', u_username = ''bob''\<rparr>]"
  using createUser_idempotent [OF users_ok_example_db _ createUser_example
      createUser_example_again]
  by (simp add: users_ok_example_db createUser_example createUser_example_again)

text \<open>
  As worded, for every username, the claim fails at a username of 256 letters: the
  column \<^verbatim>\<open>username\<close> is a \<^verbatim>\<open>VARCHAR(255)\<close>, the insertion is rejected, both calls answer
  500 with no identifier, and no row with that username exists afterwards.
\<close>

theorem createUser_idempotent_counterexample:
  "createUser example_db (JStr (replicate 256 CHR ''a'')) 1704153600000 [4, 12]
     = (Response 500 (error_body ''Server error''), example_db,
        [SelectUserByUsername, InsertUser])
   \<and> createUser example_db (JStr (replicate 256 CHR ''a'')) 1704153660000 [2]
     = (Response 500 (error_body ''Server error''), example_db,
        [SelectUserByUsername, InsertUser])
   \<and> replicate 256 CHR ''a'' \<notin> set (map u_username (users example_db))"
proof -
  have long: "varchar255 (replicate 256 CHR ''a'') = Inl ValueTooLong"
    by (simp add: varchar255_def)
  have ne: "''alice'' \<noteq> replicate 256 CHR ''a''"
  proof
    assume "''alice'' = replicate 256 CHR ''a''"
    then have "length ''alice'' = length (replicate 256 CHR ''a'')"
      by (rule arg_cong)
    then show False by simp
  qed
  have none: "select_users_by_username example_db (pg_text (JStr (replicate 256 CHR ''a''))) = []"
    using ne by (simp add: select_users_by_username_def pg_text_def example_db_def)
  have ins: "insert_user example_db ident (pg_text (JStr (replicate 256 CHR ''a'')))
               = Inl ValueTooLong" if "length ident \<le> 255" for ident
    using that by (simp add: insert_user_def pg_text_def long varchar255_short)
  have "createUser example_db (JStr (replicate 256 CHR ''a'')) now rnd
          = (Response 500 (error_body ''Server error''), example_db,
             [SelectUserByUsername, InsertUser])" for now rnd
    using none ins [of "generateObjectId now rnd"]
    by (simp add: createUser_def length_generateObjectId)
  moreover have "replicate 256 CHR ''a'' \<notin> set (map u_username (users example_db))"
    using ne by (simp add: example_db_def)
  ultimately show ?thesis by simp
qed

text \<open>
  C8. The fields of a user in a response. A 200 response of create-user is the object
  with the two fields \<^verbatim>\<open>username\<close> and \<^verbatim>\<open>_id\<close> of a row of \<^verbatim>\<open>users\<close> whose username is
  the requested one; the list of users is an array with one such object for each row. The
  identifier is under the key \<^verbatim>\<open>_id\<close>.
\<close>

theorem user_response_fields:
  "(createUser s username now rnd = (Response 200 b, s', t)
      \<longrightarrow> (\<exists>row \<in> set (users s').
             (\<exists>n. pg_text username = Some n
                  \<and> (u_username row = n \<or> varchar255 n = Inr (u_username row)))
             \<and> b = JObject [(''username'', JString (u_username row)),
                            (''_id'', JString (u_id row))]))
   \<and> (listUsers p s = (Response 200 b2, s2, t2)
      \<longrightarrow> (\<exists>js. b2 = JArray js
             \<and> map json_keys js = replicate (length (users s)) [''username'', ''_id'']
             \<and> mset js = image_mset (\<lambda>row. JObject [(''username'', JString (u_username row)),
                                                      (''_id'', JString (u_id row))])
                            (mset (users s))))"
proof (intro conjI impI)
  assume first: "createUser s username now rnd = (Response 200 b, s', t)"
  have tr: "truthy username"
    using first by (auto simp: createUser_def split: if_splits)
  from createUser_200 [OF first]
  show "\<exists>row \<in> set (users s').
             (\<exists>n. pg_text username = Some n
                  \<and> (u_username row = n \<or> varchar255 n = Inr (u_username row)))
             \<and> b = JObject [(''username'', JString (u_username row)),
                            (''_id'', JString (u_id row))]"
  proof (elim disjE exE conjE)
    fix row rest
    assume sel: "select_users_by_username s (pg_text username) = row # rest"
      and b: "b = user_json row" and s: "s' = s"
    from sel obtain n where n: "pg_text username = Some n"
      by (cases "pg_text username") (simp_all add: select_users_by_username_def)
    from sel n have "row \<in> set (filter (\<lambda>r. u_username r = n) (users s))"
      by (simp add: select_users_by_username_def)
    then show ?thesis using b s n by (auto simp: user_json_def)
  next
    fix row
    assume ins: "insert_user s (generateObjectId now rnd) (pg_text username) = Inr (row, s')"
      and b: "b = user_json row"
    from insert_user_Inr [OF ins] show ?thesis
      using b by (auto simp: user_json_def)
  qed
next
  assume "listUsers p s = (Response 200 b2, s2, t2)"
  then have b2: "b2 = JArray (map user_json (select_all_users p s))"
    by (auto simp: listUsers_def)
  have "map json_keys (map user_json (select_all_users p s))
          = replicate (length (users s)) [''username'', ''_id'']"
    by (simp add: json_keys_def user_json_def comp_def map_replicate_const
        select_all_users_def)
  moreover have "mset (map user_json (select_all_users p s))
          = image_mset (\<lambda>row. JObject [(''username'', JString (u_username row)),
                                         (''_id'', JString (u_id row))]) (mset (users s))"
    by (simp add: user_json_def [abs_def] select_all_users_def)
  ultimately show "\<exists>js. b2 = JArray js
             \<and> map json_keys js = replicate (length (users s)) [''username'', ''_id'']
             \<and> mset js = image_mset (\<lambda>row. JObject [(''username'', JString (u_username row)),
                                                      (''_id'', JString (u_id row))])
                            (mset (users s))"
    using b2 by blast
qed

theorem user_response_fields_witness:
  "createUser example_db (JStr ''bob'') 1704153600000 [4, 12]
     = (Response 200 (JObject [(''username'', JString ''bob''), (''_id'', JString ''659352004c'')]),
        example_db\<lparr>users := [\<lparr>u_id = ''659200808'', u_username = ''alice''\<rparr>,
                                 \<lparr>u_id = ''659352004c'', u_username = ''bob''\<rparr>]\<rparr>,
        [SelectUserByUsername, InsertUser])
   \<and> pg_text (JStr ''bob'') = Some ''bob''
   \<and> listUsers example_platform example_db
     = (Response 200 (JArray [JObject [(''username'', JString ''alice''),
                                       (''_id'', JString ''659200808'')]]),
        example_db, [SelectAllUsers])
   \<and> map json_keys [JObject [(''username'', JString ''alice''), (''_id'', JString ''659200808'')]]
     = replicate (length (users example_db)) [''username'', ''_id'']"
proof -
  have keys: "map json_keys [JObject [(''username'', JString ''alice''),
                                      (''_id'', JString ''659200808'')]]
                = replicate (length (users example_db)) [''username'', ''_id'']"
    by (simp add: json_keys_def example_db_def)
  show ?thesis
    using user_response_fields [of example_db "JStr ''bob''" 1704153600000 "[4, 12]"
      "JObject [(''username'', JString ''bob''), (''_id'', JString ''659352004c'')]"
      "example_db\<lparr>users := [\<lparr>u_id = ''659200808'', u_username = ''alice''\<rparr>,
                                 \<lparr>u_id = ''659352004c'', u_username = ''bob''\<rparr>]\<rparr>"
      "[SelectUserByUsername, InsertUser]" example_platform
      "JArray [JObject [(''username'', JString ''alice''), (''_id'', JString ''659200808'')]]"
      example_db "[SelectAllUsers]"]
    by (simp add: createUser_example listUsers_example pg_text_def keys)
qed

text \<open>
  The same response has no field named \<^verbatim>\<open>id\<close>: the claim as worded, with the two fields
  \<^verbatim>\<open>id\<close> and \<^verbatim>\<open>username\<close>, fails at the first creation of the user bob.
\<close>

theorem user_response_fields_counterexample:
  "status (fst (createUser example_db (JStr ''bob'') 1704153600000 [4, 12])) = 200
   \<and> json_keys (body (fst (createUser example_db (JStr ''bob'') 1704153600000 [4, 12])))
       = [''username'', ''_id'']
   \<and> json_field ''id'' (body (fst (createUser example_db (JStr ''bob'') 1704153600000 [4, 12])))
       = None"
  by (simp add: createUser_example json_keys_def json_field_def)

subsection \<open>Dates in responses\<close>

lemma toDateString_pg_read_date: "toDateString p (pg_read_date p day) = date_string day"
  by (simp add: pg_read_date_def local_day_def msPerDay_def)

lemma json_field_date_exercise:
  "json_field ''date'' (exercise_json p user exercise)
     = Some (JString (date_string (e_date exercise)))"
  by (simp add: json_field_def exercise_json_def toDateString_pg_read_date)

lemma log_entry_date_string:
  "log_entry p e = JObject [(''description'', JString (e_description e)),
                            (''duration'', JNumber (e_duration e)),
                            (''date'', JString (date_string (e_date e)))]"
  by (simp add: log_entry_def toDateString_pg_read_date)

lemma getLogs_200:
  assumes "getLogs p s userId from to limit tie = (Response 200 b, s', t)"
  shows "\<exists>user rest rows. select_user_by_id s userId = user # rest
           \<and> select_exercises p s (build_log_query p userId from to limit) tie = Inr rows
           \<and> b = log_json p user rows \<and> s' = s"
  using assms
  by (auto simp: getLogs_def split: list.splits sum.splits)

lemma local_day_east:
  assumes "0 \<le> tz_offset p" and "tz_offset p < 1440"
  shows "local_day p (day * msPerDay) = day"
proof -
  have "(day * 86400000 + tz_offset p * 60000) div 86400000 = day"
    using assms by linarith
  then show ?thesis by (simp add: local_day_def msPerDay_def)
qed

lemma local_day_west:
  assumes "- 1440 \<le> tz_offset p" and "tz_offset p < 0"
  shows "local_day p (day * msPerDay) = day - 1"
proof -
  have "(day * 86400000 + tz_offset p * 60000) div 86400000 = day - 1"
    using assms by linarith
  then show ?thesis by (simp add: local_day_def msPerDay_def)
qed

lemma addExercise_date_of_2024_01_01:
  assumes "addExercise p s userId description duration (JStr ''2024-01-01'') now0 now rnd
             = (Response 200 b, s', t)"
  shows "json_field ''date'' b = Some (JString (date_string (local_day p (19723 * msPerDay))))"
proof -
  from addExercise_200 [OF assms] obtain user rest exercise where
    sel: "select_user_by_id s userId = user # rest" and
    ins: "insert_exercise p s (generateObjectId now rnd) userId (pg_text description)
            (parseInt duration)
            (if truthy (JStr ''2024-01-01'') then new_Date p (JStr ''2024-01-01'')
             else Instant now0)
          = Inr (exercise, s')" and
    b: "b = exercise_json p user exercise"
    by blast
  have "pg_date p (Instant (19723 * msPerDay)) = Inr (e_date exercise)"
    using insert_exercise_Inr [OF ins]
    by (simp add: Date_parse_def iso_date_only_example)
  then have "e_date exercise = local_day p (19723 * msPerDay)"
    by (simp add: pg_date_def)
  then show ?thesis
    by (simp add: b json_field_date_exercise)
qed

lemma addExercise_example_west:
  "addExercise example_platform_west example_db ''659200808'' (JStr ''run'') (JNum 30)
      (JStr ''2024-01-01'') 0 1704153600000 [4, 12]
    = (Response 200
         (JObject [(''_id'', JString ''659200808''), (''username'', JString ''alice''),
                   (''date'', JString ''Sun Dec 31 2023''), (''duration'', JNumber 30),
                   (''description'', JString ''run'')]),
       example_db\<lparr>exercises := [\<lparr>e_id = ''659352004c'', e_user_id = ''659200808'',
          e_description = ''run'', e_duration = 30, e_date = 19722\<rparr>]\<rparr>,
       [SelectUserById, InsertExercise])"
  by (simp add: addExercise_def example_db_def example_platform_west_def select_user_by_id_def
      generateObjectId_example insert_exercise_def pg_text_def parseInt_30 Date_parse_def
      iso_date_only_example pg_date_def local_day_def msPerDay_def exercise_json_def
      pg_read_date_def date_string_19722 varchar255_def Let_def)

lemma example_rows:
  "e_user_id example_run = ''659200808''" "e_date example_run = 19723"
  "e_user_id example_rowing = ''659200808''" "e_date example_rowing = 19737"
  "e_user_id example_swim = ''659200808''" "e_date example_swim = 19754"
  by (simp_all add: example_run_def example_rowing_def example_swim_def)

lemma getLogs_example:
  "getLogs example_platform example_log_db ''659200808'' None None None example_tie
    = (Response 200
         (log_json example_platform \<lparr>u_id = ''659200808'', u_username = ''alice''\<rparr>
            [example_run, example_rowing, example_swim]),
       example_log_db, [SelectUserById, SelectExercises])"
  by (simp add: getLogs_def example_log_db_def select_user_by_id_def build_log_query_def
      query_value_def select_exercises_def bind_date_def bind_limit_def apply_limit_def
      date_ge_def date_le_def order_by_date_def example_tie_def example_rows)

text \<open>
  C7. The date of a response. In a 200 response of add-exercise the field \<^verbatim>\<open>date\<close> is the
  rendering (weekday, month, day, year, in English) of the calendar day stored in the new
  row, and every entry of a log carries the rendering of the day stored in its row. An
  exercise posted with the date \<^verbatim>\<open>2024-01-01\<close> is answered with \<^verbatim>\<open>Mon Jan 01 2024\<close>, at
  every clock value, on a server whose time zone is UTC or east of it; on a server west
  of UTC the answer is \<^verbatim>\<open>Sun Dec 31 2023\<close>.
\<close>

theorem response_dates:
  "(addExercise p s userId description duration date now0 now rnd = (Response 200 b, s', t)
      \<longrightarrow> json_field ''date'' b = Some (JString (date_string (e_date (last (exercises s'))))))
   \<and> (getLogs p s userId from to limit tie = (Response 200 b2, s2, t2)
      \<longrightarrow> (\<exists>rows. set rows \<subseteq> set (exercises s)
             \<and> json_field ''log'' b2
                 = Some (JArray (map (\<lambda>e. JObject [(''description'', JString (e_description e)),
                                                     (''duration'', JNumber (e_duration e)),
                                                     (''date'', JString (date_string (e_date e)))])
                                  rows))))
   \<and> (0 \<le> tz_offset p \<and> tz_offset p < 1440
       \<and> addExercise p s userId description duration (JStr ''2024-01-01'') now0 now rnd
           = (Response 200 b3, s3, t3)
      \<longrightarrow> json_field ''date'' b3 = Some (JString ''Mon Jan 01 2024''))
   \<and> (- 1440 \<le> tz_offset p \<and> tz_offset p < 0
       \<and> addExercise p s userId description duration (JStr ''2024-01-01'') now0 now rnd
           = (Response 200 b3, s3, t3)
      \<longrightarrow> json_field ''date'' b3 = Some (JString ''Sun Dec 31 2023''))"
proof (intro conjI impI)
  assume add: "addExercise p s userId description duration date now0 now rnd
                 = (Response 200 b, s', t)"
  from addExercise_200 [OF add] obtain user rest exercise where
    sel: "select_user_by_id s userId = user # rest" and
    ins: "insert_exercise p s (generateObjectId now rnd) userId (pg_text description)
            (parseInt duration) (if truthy date then new_Date p date else Instant now0)
          = Inr (exercise, s')" and
    b: "b = exercise_json p user exercise"
    by blast
  have "last (exercises s') = exercise"
    using insert_exercise_Inr [OF ins] by simp
  then show "json_field ''date'' b = Some (JString (date_string (e_date (last (exercises s')))))"
    by (simp add: b json_field_date_exercise)
next
  assume "getLogs p s userId from to limit tie = (Response 200 b2, s2, t2)"
  from getLogs_200 [OF this] obtain user rest rows where
    sel: "select_user_by_id s userId = user # rest" and
    rows: "select_exercises p s (build_log_query p userId from to limit) tie = Inr rows" and
    b2: "b2 = log_json p user rows"
    by blast
  have "set rows \<subseteq> set (exercises s)"
    using rows
    by (auto simp: select_exercises_def apply_limit_def order_by_date_def
        split: sum.splits option.splits dest: in_set_takeD)
  moreover have "json_field ''log'' b2
      = Some (JArray (map (\<lambda>e. JObject [(''description'', JString (e_description e)),
                                          (''duration'', JNumber (e_duration e)),
                                          (''date'', JString (date_string (e_date e)))])
                       rows))"
    by (simp add: b2 log_json_def json_field_def log_entry_date_string [abs_def])
  ultimately show "\<exists>rows. set rows \<subseteq> set (exercises s)
             \<and> json_field ''log'' b2
                 = Some (JArray (map (\<lambda>e. JObject [(''description'', JString (e_description e)),
                                                     (''duration'', JNumber (e_duration e)),
                                                     (''date'', JString (date_string (e_date e)))])
                                  rows))"
    by blast
next
  assume "0 \<le> tz_offset p \<and> tz_offset p < 1440
       \<and> addExercise p s userId description duration (JStr ''2024-01-01'') now0 now rnd
           = (Response 200 b3, s3, t3)"
  then show "json_field ''date'' b3 = Some (JString ''Mon Jan 01 2024'')"
    using addExercise_date_of_2024_01_01 [of p s userId description duration now0 now rnd b3 s3 t3]
    by (simp add: local_day_east date_string_19723)
next
  assume "- 1440 \<le> tz_offset p \<and> tz_offset p < 0
       \<and> addExercise p s userId description duration (JStr ''2024-01-01'') now0 now rnd
           = (Response 200 b3, s3, t3)"
  then show "json_field ''date'' b3 = Some (JString ''Sun Dec 31 2023'')"
    using addExercise_date_of_2024_01_01 [of p s userId description duration now0 now rnd b3 s3 t3]
    by (simp add: local_day_west date_string_19722)
qed

theorem response_dates_witness:
  "addExercise example_platform example_db ''659200808'' (JStr ''run'') (JNum 30)
      (JStr ''2024-01-01'') 0 1704153600000 [4, 12]
    = (Response 200
         (JObject [(''_id'', JString ''659200808''), (''username'', JString ''alice''),
                   (''date'', JString ''Mon Jan 01 2024''), (''duration'', JNumber 30),
                   (''description'', JString ''run'')]),
       example_db\<lparr>exercises := [\<lparr>e_id = ''659352004c'', e_user_id = ''659200808'',
          e_description = ''run'', e_duration = 30, e_date = 19723\<rparr>]\<rparr>,
       [SelectUserById, InsertExercise])
   \<and> 0 \<le> tz_offset example_platform \<and> tz_offset example_platform < 1440
   \<and> date_string 19723 = ''Mon Jan 01 2024''
   \<and> addExercise example_platform_west example_db ''659200808'' (JStr ''run'') (JNum 30)
      (JStr ''2024-01-01'') 0 1704153600000 [4, 12]
    = (Response 200
         (JObject [(''_id'', JString ''659200808''), (''username'', JString ''alice''),
                   (''date'', JString ''Sun Dec 31 2023''), (''duration'', JNumber 30),
                   (''description'', JString ''run'')]),
       example_db\<lparr>exercises := [\<lparr>e_id = ''659352004c'', e_user_id = ''659200808'',
          e_description = ''run'', e_duration = 30, e_date = 19722\<rparr>]\<rparr>,
       [SelectUserById, InsertExercise])
   \<and> - 1440 \<le> tz_offset example_platform_west \<and> tz_offset example_platform_west < 0
   \<and> getLogs example_platform example_log_db ''659200808'' None None None example_tie
    = (Response 200
         (log_json example_platform \<lparr>u_id = ''659200808'', u_username = ''alice''\<rparr>
            [example_run, example_rowing, example_swim]),
       example_log_db, [SelectUserById, SelectExercises])"
proof -
  have tz: "0 \<le> tz_offset example_platform" "tz_offset example_platform < 1440"
    "- 1440 \<le> tz_offset example_platform_west" "tz_offset example_platform_west < 0"
    by (simp_all add: example_platform_def example_platform_west_def)
  show ?thesis
    using response_dates [of example_platform example_db "''659200808''" "JStr ''run''"
        "JNum 30" "JStr ''2024-01-01''" 0 1704153600000 "[4, 12]"]
    by (simp add: addExercise_example addExercise_example_west getLogs_example
        date_string_19723 tz)
qed

text \<open>
  As worded, for every server time zone, the claim fails on a server five hours west of
  UTC: midnight UTC of 2024-01-01 is the evening of 2023-12-31 there, that day is stored,
  and the response carries \<^verbatim>\<open>Sun Dec 31 2023\<close>.
\<close>

theorem response_dates_counterexample:
  "addExercise example_platform_west example_db ''659200808'' (JStr ''run'') (JNum 30)
      (JStr ''2024-01-01'') 0 1704153600000 [4, 12]
    = (Response 200
         (JObject [(''_id'', JString ''659200808''), (''username'', JString ''alice''),
                   (''date'', JString ''Sun Dec 31 2023''), (''duration'', JNumber 30),
                   (''description'', JString ''run'')]),
       example_db\<lparr>exercises := [\<lparr>e_id = ''659352004c'', e_user_id = ''659200808'',
          e_description = ''run'', e_duration = 30, e_date = 19722\<rparr>]\<rparr>,
       [SelectUserById, InsertExercise])
   \<and> json_field ''date''
        (body (fst (addExercise example_platform_west example_db ''659200808'' (JStr ''run'')
                      (JNum 30) (JStr ''2024-01-01'') 0 1704153600000 [4, 12])))
       \<noteq> Some (JString ''Mon Jan 01 2024'')"
  by (simp add: addExercise_example_west json_field_def)

subsection \<open>Decimal strings and parseInt\<close>

lemma digit_of_dec_digit: "d < 10 \<Longrightarrow> digit_of (dec_digit d) = Some d"
proof -
  assume "d < 10"
  then have "d \<in> {0, 1, 2, 3, 4, 5, 6, 7, 8, 9}" by auto
  then show ?thesis
    by (auto simp: dec_digit_def digit_of_def)
qed

lemma dec_digit_in: "d < 10 \<Longrightarrow> dec_digit d \<in> set ''0123456789''"
proof -
  assume "d < 10"
  then have "d \<in> {0, 1, 2, 3, 4, 5, 6, 7, 8, 9}" by auto
  then show ?thesis
    by (auto simp: dec_digit_def)
qed

lemma decimal_char:
  assumes "c \<in> set ''0123456789''"
  shows "is_digit 10 c \<and> \<not> is_space c \<and> c \<noteq> CHR ''-'' \<and> c \<noteq> CHR ''+''
         \<and> c \<noteq> CHR ''x'' \<and> c \<noteq> CHR ''X''"
  using assms by (auto simp: digit_of_def is_digit_def is_space_def)

lemma dec_nat_digits: "dec_nat n \<noteq> [] \<and> set (dec_nat n) \<subseteq> set ''0123456789''"
proof (induction n rule: dec_nat.induct)
  case (1 n)
  show ?case
  proof (cases "n < 10")
    case True
    then show ?thesis
      using dec_digit_in [of n] by (subst (1 2) dec_nat.simps) simp
  next
    case False
    have "dec_digit (n mod 10) \<in> set ''0123456789''"
      by (rule dec_digit_in) simp
    with False 1 show ?thesis
      by (subst (1 2) dec_nat.simps) simp
  qed
qed

lemma digits_value_snoc:
  "digits_value r (z @ [c]) = digits_value r z * r + (case digit_of c of None \<Rightarrow> 0 | Some d \<Rightarrow> d)"
  by (simp add: digits_value_def)

lemma digits_value_dec_nat: "digits_value 10 (dec_nat n) = n"
proof (induction n rule: dec_nat.induct)
  case (1 n)
  show ?case
  proof (cases "n < 10")
    case True
    then show ?thesis
      by (subst dec_nat.simps) (simp add: digits_value_def digit_of_dec_digit)
  next
    case False
    have "digits_value 10 (dec_nat (n div 10) @ [dec_digit (n mod 10)]) = n div 10 * 10 + n mod 10"
      using 1 [OF False] by (simp add: digits_value_snoc digit_of_dec_digit)
    with False show ?thesis
      by (subst dec_nat.simps) simp
  qed
qed

lemma parseInt_str_digits:
  assumes "z \<noteq> []" and "set z \<subseteq> set ''0123456789''"
  shows "parseInt_str z = to_number (int (digits_value 10 z))"
proof -
  from assms obtain c rest where z: "z = c # rest" by (cases z) auto
  have c: "c \<in> set ''0123456789''"
    using assms(2) z by auto
  have all: "\<forall>c \<in> set z. is_digit 10 c"
    using assms(2) decimal_char by blast
  have sp: "dropWhile is_space z = z"
    using z decimal_char [OF c] by simp
  have tw: "takeWhile (is_digit 10) z = z"
    using all by (simp add: takeWhile_eq_all_conv)
  have nx: "take 2 z \<noteq> ''0x''" "take 2 z \<noteq> ''0X''"
  proof -
    show "take 2 z \<noteq> ''0x''"
    proof
      assume e: "take 2 z = ''0x''"
      then have "CHR ''x'' \<in> set (take 2 z)" by simp
      then have "CHR ''x'' \<in> set z" by (rule in_set_takeD)
      then have "CHR ''x'' \<in> set ''0123456789''" using assms(2) by blast
      then show False by simp
    qed
    show "take 2 z \<noteq> ''0X''"
    proof
      assume e: "take 2 z = ''0X''"
      then have "CHR ''X'' \<in> set (take 2 z)" by simp
      then have "CHR ''X'' \<in> set z" by (rule in_set_takeD)
      then have "CHR ''X'' \<in> set ''0123456789''" using assms(2) by blast
      then show False by simp
    qed
  qed
  have sign: "c \<noteq> CHR ''-''" "c \<noteq> CHR ''+''"
    using decimal_char [OF c] by auto
  have "parseInt_str (c # rest) = to_number (int (digits_value 10 (c # rest)))"
    unfolding parseInt_str_def Let_def
    using sp tw nx sign unfolding z by auto
  then show ?thesis by (simp add: z)
qed

lemma parseInt_str_dec_nat:
  "k \<le> 9007199254740991 \<Longrightarrow> parseInt_str (dec_nat k) = SafeInt (int k)"
  using parseInt_str_digits [of "dec_nat k"] dec_nat_digits [of k]
  by (simp add: digits_value_dec_nat to_number_def)

subsection \<open>The exercise log\<close>

lemma sorted_order_by_date: "sorted (map e_date (order_by_date tie rows))"
  by (simp add: order_by_date_def)

lemma mset_order_by_date: "mset (order_by_date tie rows) = mset rows"
  by (simp add: order_by_date_def)

lemma length_order_by_date: "length (order_by_date tie rows) = length rows"
  by (simp add: order_by_date_def)

lemma map_sort_key: "map f (sort_key f xs) = sort (map f xs)"
  by (rule properties_for_sort [symmetric]) simp_all

lemma dates_order_by_date: "map e_date (order_by_date tie rows) = sort (map e_date rows)"
proof -
  have "mset (map e_date (sort_key tie rows)) = mset (map e_date rows)"
    by simp
  then have "sort (map e_date (sort_key tie rows)) = sort (map e_date rows)"
    by (metis sorted_list_of_multiset_mset)
  then show ?thesis
    by (simp add: order_by_date_def map_sort_key)
qed

lemma dates_order_by_date_perm:
  assumes "mset xs = mset ys"
  shows "map e_date (order_by_date tie (filter P xs))
           = map e_date (order_by_date tie2 (filter P ys))"
proof -
  have "mset (map e_date (filter P xs)) = mset (map e_date (filter P ys))"
    using assms by simp
  then have "sort (map e_date (filter P xs)) = sort (map e_date (filter P ys))"
    by (metis sorted_list_of_multiset_mset)
  then show ?thesis
    by (simp add: dates_order_by_date)
qed

lemma sorted_apply_limit: "sorted (map f rows) \<Longrightarrow> sorted (map f (apply_limit lim rows))"
  by (cases lim) (simp_all add: apply_limit_def take_map [symmetric])

lemma map_apply_limit: "map f (apply_limit lim rows) = apply_limit lim (map f rows)"
  by (cases lim) (simp_all add: apply_limit_def take_map)

lemma mset_apply_limit: "mset (apply_limit lim rows) \<subseteq># mset rows"
proof (cases lim)
  case None
  then show ?thesis by (simp add: apply_limit_def)
next
  case (Some k)
  have "mset (take k rows) + mset (drop k rows) = mset rows"
    by (simp add: union_code)
  then have "mset (take k rows) \<subseteq># mset rows"
    by (metis mset_subset_eq_add_left)
  with Some show ?thesis by (simp add: apply_limit_def)
qed

lemma log_json_explicit:
  "log_json p user rows
     = JObject [(''_id'', JString (u_id user)),
                (''username'', JString (u_username user)),
                (''count'', JNumber (int (length rows))),
                (''log'', JArray (map (\<lambda>e. JObject [(''description'', JString (e_description e)),
                                                       (''duration'', JNumber (e_duration e)),
                                                       (''date'', JString (date_string (e_date e)))])
                                    rows))]"
  by (simp add: log_json_def log_entry_date_string [abs_def])

lemma select_exercises_Inr:
  assumes "select_exercises p s q tie = Inr rows"
  shows "\<exists>lo hi lim. bind_date p (q_from q) = Inr lo \<and> bind_date p (q_to q) = Inr hi
           \<and> bind_limit p (q_limit q) = Inr lim
           \<and> rows = apply_limit lim
                (order_by_date tie
                   (filter (\<lambda>e. e_user_id e = q_user_id q \<and> date_ge lo e \<and> date_le hi e)
                      (exercises s)))"
  using assms by (auto simp: select_exercises_def split: sum.splits)

lemma select_exercises_perm:
  assumes "select_exercises p s q tie = Inr rows" and "mset (exercises s2) = mset (exercises s)"
  shows "\<exists>rows2. select_exercises p s2 q tie2 = Inr rows2 \<and> map e_date rows2 = map e_date rows"
proof -
  from select_exercises_Inr [OF assms(1)] obtain lo hi lim where
    b: "bind_date p (q_from q) = Inr lo" "bind_date p (q_to q) = Inr hi"
       "bind_limit p (q_limit q) = Inr lim" and
    rows: "rows = apply_limit lim
                (order_by_date tie
                   (filter (\<lambda>e. e_user_id e = q_user_id q \<and> date_ge lo e \<and> date_le hi e)
                      (exercises s)))"
    by blast
  let ?rows2 = "apply_limit lim
                (order_by_date tie2
                   (filter (\<lambda>e. e_user_id e = q_user_id q \<and> date_ge lo e \<and> date_le hi e)
                      (exercises s2)))"
  have "select_exercises p s2 q tie2 = Inr ?rows2"
    using b by (simp add: select_exercises_def)
  moreover have "map e_date ?rows2 = map e_date rows"
    unfolding rows map_apply_limit
    using dates_order_by_date_perm [OF assms(2), of tie2 _ tie] by simp
  ultimately show ?thesis by blast
qed

lemma build_log_query_plain:
  "build_log_query p userId None None None
     = \<lparr>q_user_id = userId, q_from = None, q_to = None, q_limit = None\<rparr>"
  by (simp add: build_log_query_def query_value_def)

lemma getLogs_plain:
  assumes "select_user_by_id s userId = user # rest"
  shows "getLogs p s userId None None None tie
           = (Response 200
                (log_json p user
                   (order_by_date tie (filter (\<lambda>e. e_user_id e = userId) (exercises s)))),
              s, [SelectUserById, SelectExercises])"
  using assms
  by (simp add: getLogs_def build_log_query_plain select_exercises_def bind_date_def
      bind_limit_def apply_limit_def date_ge_def date_le_def)

lemma getLogs_200_rows:
  assumes resp: "getLogs p s userId from to limit tie = (Response 200 b, s', t)"
    and user: "select_user_by_id s userId = user # rest"
    and users: "users s2 = users s"
    and perm: "mset (exercises s2) = mset (exercises s)"
  shows "\<exists>rows rows2.
           b = log_json p user rows \<and> sorted (map e_date rows)
           \<and> mset rows \<subseteq># filter_mset (\<lambda>e. e_user_id e = userId) (mset (exercises s))
           \<and> getLogs p s2 userId from to limit tie2 = (Response 200 (log_json p user rows2), s2, t)
           \<and> map e_date rows2 = map e_date rows"
proof -
  from resp user obtain rows where
    rows: "select_exercises p s (build_log_query p userId from to limit) tie = Inr rows" and
    b: "b = log_json p user rows" and t: "t = [SelectUserById, SelectExercises]"
    by (auto simp: getLogs_def split: list.splits sum.splits)
  from select_exercises_Inr [OF rows] obtain lo hi lim where
    r: "rows = apply_limit lim
                (order_by_date tie
                   (filter (\<lambda>e. e_user_id e = userId \<and> date_ge lo e \<and> date_le hi e)
                      (exercises s)))"
    by (auto simp: build_log_query_def)
  have srt: "sorted (map e_date rows)"
    unfolding r by (rule sorted_apply_limit) (rule sorted_order_by_date)
  have "mset rows \<subseteq># mset (filter (\<lambda>e. e_user_id e = userId \<and> date_ge lo e \<and> date_le hi e)
                            (exercises s))"
    unfolding r
    using mset_apply_limit [of lim "order_by_date tie
                   (filter (\<lambda>e. e_user_id e = userId \<and> date_ge lo e \<and> date_le hi e)
                      (exercises s))"]
    by (simp add: mset_order_by_date)
  also have "\<dots> \<subseteq># filter_mset (\<lambda>e. e_user_id e = userId) (mset (exercises s))"
    by (rule mset_subset_eqI) simp
  finally have sub: "mset rows \<subseteq># filter_mset (\<lambda>e. e_user_id e = userId) (mset (exercises s))" .
  from select_exercises_perm [OF rows perm] obtain rows2 where
    rows2: "select_exercises p s2 (build_log_query p userId from to limit) tie2 = Inr rows2"
      "map e_date rows2 = map e_date rows"
    by blast
  have sel2: "select_user_by_id s2 userId = user # rest"
    using user users by (simp add: select_user_by_id_def)
  have "getLogs p s2 userId from to limit tie2 = (Response 200 (log_json p user rows2), s2, t)"
    using sel2 rows2(1) t by (simp add: getLogs_def)
  with b srt sub rows2(2) show ?thesis by blast
qed

lemma civil_from_days_19737: "civil_from_days 19737 = (2024, 1, 15)"
  unfolding civil_from_days_def Let_def by simp

lemma civil_from_days_19754: "civil_from_days 19754 = (2024, 2, 1)"
  unfolding civil_from_days_def Let_def by simp

lemma dec_nat_15: "dec_nat 15 = ''15''"
  by (simp add: dec_nat.simps dec_digit_def)

lemma date_string_19737: "date_string 19737 = ''Mon Jan 15 2024''"
  by (simp add: date_string_def civil_from_days_19737 WeekDay_def weekday_name_def
      month_name_def pad_zero_def dec_nat_examples dec_nat_15)

lemma date_string_19754: "date_string 19754 = ''Thu Feb 01 2024''"
  by (simp add: date_string_def civil_from_days_19754 WeekDay_def weekday_name_def
      month_name_def pad_zero_def dec_nat_examples dec_nat_Suc_0)

lemma example_fields:
  "e_description example_run = ''run''" "e_duration example_run = 30"
  "e_description example_rowing = ''row''" "e_duration example_rowing = 45"
  "e_description example_swim = ''swim''" "e_duration example_swim = 20"
  "e_description example_walk = ''walk''" "e_duration example_walk = 25"
  "e_user_id example_walk = ''659200808''" "e_date example_walk = 19737"
  by (simp_all add: example_run_def example_rowing_def example_swim_def example_walk_def)

lemma example_tie_reverse:
  "example_tie_reverse example_run = 141" "example_tie_reverse example_rowing = 141"
  "example_tie_reverse example_swim = 140" "example_tie_reverse example_walk = 136"
  by (simp_all add: example_tie_reverse_def example_fields)

lemma example_log_db_reordered:
  "users example_log_db_reordered = users example_log_db"
  "mset (exercises example_log_db_reordered) = mset (exercises example_log_db)"
  by (simp_all add: example_log_db_def example_log_db_reordered_def)

lemma select_user_by_id_example:
  "select_user_by_id example_log_db ''659200808''
     = \<lparr>u_id = ''659200808'', u_username = ''alice''\<rparr> # []"
  by (simp add: select_user_by_id_def example_log_db_def)

lemma order_by_date_example:
  "order_by_date example_tie
     (filter (\<lambda>e. e_user_id e = ''659200808'') (exercises example_log_db))
     = [example_run, example_rowing, example_swim]"
  "order_by_date example_tie_reverse
     (filter (\<lambda>e. e_user_id e = ''659200808'') (exercises example_log_db_reordered))
     = [example_run, example_rowing, example_swim]"
  by (simp_all add: order_by_date_def example_log_db_def example_log_db_reordered_def
      example_rows example_tie_def example_tie_reverse)

text \<open>
  C4. The order of a log. For an existing user the request with no parameter answers 200
  with a body of the fields \<^verbatim>\<open>_id\<close>, \<^verbatim>\<open>username\<close>, \<^verbatim>\<open>count\<close> and \<^verbatim>\<open>log\<close>, where \<^verbatim>\<open>log\<close> has one
  entry (description, duration, date) for each exercise of the user, in ascending order of
  the dates, and \<^verbatim>\<open>count\<close> is the number of entries. The order in which the rows were
  inserted, and the order the database gives to rows of one date, have no effect on the
  sequence of dates: tables that hold the same exercises in any other order give it
  again. Every 200 response of the log operation, with \<^verbatim>\<open>from\<close>, \<^verbatim>\<open>to\<close> or \<^verbatim>\<open>limit\<close>, lists
  exercises of the user in ascending order of date as well, and the same request on the
  reordered tables answers 200 with the same sequence of dates.
\<close>

theorem getLogs_sorted:
  fixes s s2 :: db and userId :: string and tie tie' :: "exercise_row \<Rightarrow> nat"
  defines "stored \<equiv> order_by_date tie (filter (\<lambda>e. e_user_id e = userId) (exercises s))"
    and "stored2 \<equiv> order_by_date tie' (filter (\<lambda>e. e_user_id e = userId) (exercises s2))"
    and "answer \<equiv> \<lambda>(user :: user_row) rows.
           JObject [(''_id'', JString (u_id user)),
                    (''username'', JString (u_username user)),
                    (''count'', JNumber (int (length rows))),
                    (''log'', JArray (map (\<lambda>e. JObject [(''description'', JString (e_description e)),
                                                           (''duration'', JNumber (e_duration e)),
                                                           (''date'', JString (date_string (e_date e)))])
                                        rows))]"
  assumes user: "select_user_by_id s userId = user # rest"
    and users: "users s2 = users s"
    and perm: "mset (exercises s2) = mset (exercises s)"
  shows "getLogs p s userId None None None tie
           = (Response 200 (answer user stored), s, [SelectUserById, SelectExercises])
         \<and> u_id user = userId
         \<and> sorted (map e_date stored)
         \<and> mset stored = filter_mset (\<lambda>e. e_user_id e = userId) (mset (exercises s))
         \<and> getLogs p s2 userId None None None tie'
             = (Response 200 (answer user stored2), s2, [SelectUserById, SelectExercises])
         \<and> map e_date stored2 = map e_date stored
         \<and> (getLogs p s userId from to limit tie = (Response 200 b, s', t)
            \<longrightarrow> (\<exists>rows rows2.
                   b = answer user rows \<and> sorted (map e_date rows)
                   \<and> mset rows \<subseteq># filter_mset (\<lambda>e. e_user_id e = userId) (mset (exercises s))
                   \<and> getLogs p s2 userId from to limit tie'
                       = (Response 200 (answer user rows2), s2, t)
                   \<and> map e_date rows2 = map e_date rows))"
proof -
  have answer: "answer user rows = log_json p user rows" for rows
    unfolding answer_def by (simp add: log_json_explicit)
  have sel2: "select_user_by_id s2 userId = user # rest"
    using user users by (simp add: select_user_by_id_def)
  have uid: "u_id user = userId"
    using select_user_by_id_Cons [OF user] by simp
  have plain: "getLogs p s userId None None None tie
           = (Response 200 (answer user stored), s, [SelectUserById, SelectExercises])"
    unfolding stored_def answer by (rule getLogs_plain [OF user])
  have plain2: "getLogs p s2 userId None None None tie'
           = (Response 200 (answer user stored2), s2, [SelectUserById, SelectExercises])"
    unfolding stored2_def answer by (rule getLogs_plain [OF sel2])
  have srt: "sorted (map e_date stored)"
    unfolding stored_def by (rule sorted_order_by_date)
  have all: "mset stored = filter_mset (\<lambda>e. e_user_id e = userId) (mset (exercises s))"
    by (simp add: stored_def mset_order_by_date)
  have same: "map e_date stored2 = map e_date stored"
    unfolding stored_def stored2_def
    by (rule dates_order_by_date_perm) (rule perm)
  have any: "\<exists>rows rows2.
                   b = answer user rows \<and> sorted (map e_date rows)
                   \<and> mset rows \<subseteq># filter_mset (\<lambda>e. e_user_id e = userId) (mset (exercises s))
                   \<and> getLogs p s2 userId from to limit tie'
                       = (Response 200 (answer user rows2), s2, t)
                   \<and> map e_date rows2 = map e_date rows"
    if resp: "getLogs p s userId from to limit tie = (Response 200 b, s', t)"
    unfolding answer by (rule getLogs_200_rows [OF resp user users perm])
  show ?thesis
    using plain uid srt all plain2 same any by blast
qed

theorem getLogs_sorted_witness:
  "getLogs example_platform example_log_db ''659200808'' None None None example_tie
    = (Response 200
         (JObject [(''_id'', JString ''659200808''), (''username'', JString ''alice''),
                   (''count'', JNumber 3),
                   (''log'', JArray
                      [JObject [(''description'', JString ''run''), (''duration'', JNumber 30),
                                (''date'', JString ''Mon Jan 01 2024'')],
                       JObject [(''description'', JString ''row''), (''duration'', JNumber 45),
                                (''date'', JString ''Mon Jan 15 2024'')],
                       JObject [(''description'', JString ''swim''), (''duration'', JNumber 20),
                                (''date'', JString ''Thu Feb 01 2024'')]])]),
       example_log_db, [SelectUserById, SelectExercises])
   \<and> users example_log_db_reordered = users example_log_db
   \<and> mset (exercises example_log_db_reordered) = mset (exercises example_log_db)
   \<and> exercises example_log_db = [example_swim, example_run, example_rowing]
   \<and> exercises example_log_db_reordered = [example_rowing, example_swim, example_run]
   \<and> getLogs example_platform example_log_db_reordered ''659200808'' None None None
        example_tie_reverse
    = (Response 200
         (JObject [(''_id'', JString ''659200808''), (''username'', JString ''alice''),
                   (''count'', JNumber 3),
                   (''log'', JArray
                      [JObject [(''description'', JString ''run''), (''duration'', JNumber 30),
                                (''date'', JString ''Mon Jan 01 2024'')],
                       JObject [(''description'', JString ''row''), (''duration'', JNumber 45),
                                (''date'', JString ''Mon Jan 15 2024'')],
                       JObject [(''description'', JString ''swim''), (''duration'', JNumber 20),
                                (''date'', JString ''Thu Feb 01 2024'')]])]),
       example_log_db_reordered, [SelectUserById, SelectExercises])"
proof -
  have ex: "exercises example_log_db = [example_swim, example_run, example_rowing]"
    "exercises example_log_db_reordered = [example_rowing, example_swim, example_run]"
    by (simp_all add: example_log_db_def example_log_db_reordered_def)
  note inst = getLogs_sorted [where p = example_platform and tie = example_tie
      and tie' = example_tie_reverse, OF select_user_by_id_example example_log_db_reordered]
  from inst have a: "getLogs example_platform example_log_db ''659200808'' None None None example_tie
    = (Response 200
         (JObject [(''_id'', JString ''659200808''), (''username'', JString ''alice''),
                   (''count'', JNumber 3),
                   (''log'', JArray
                      [JObject [(''description'', JString ''run''), (''duration'', JNumber 30),
                                (''date'', JString ''Mon Jan 01 2024'')],
                       JObject [(''description'', JString ''row''), (''duration'', JNumber 45),
                                (''date'', JString ''Mon Jan 15 2024'')],
                       JObject [(''description'', JString ''swim''), (''duration'', JNumber 20),
                                (''date'', JString ''Thu Feb 01 2024'')]])]),
       example_log_db, [SelectUserById, SelectExercises])"
    by (simp add: order_by_date_example example_rows example_fields date_string_19723
        date_string_19737 date_string_19754)
  from inst have b: "getLogs example_platform example_log_db_reordered ''659200808'' None None None
        example_tie_reverse
    = (Response 200
         (JObject [(''_id'', JString ''659200808''), (''username'', JString ''alice''),
                   (''count'', JNumber 3),
                   (''log'', JArray
                      [JObject [(''description'', JString ''run''), (''duration'', JNumber 30),
                                (''date'', JString ''Mon Jan 01 2024'')],
                       JObject [(''description'', JString ''row''), (''duration'', JNumber 45),
                                (''date'', JString ''Mon Jan 15 2024'')],
                       JObject [(''description'', JString ''swim''), (''duration'', JNumber 20),
                                (''date'', JString ''Thu Feb 01 2024'')]])]),
       example_log_db_reordered, [SelectUserById, SelectExercises])"
    by (simp add: order_by_date_example example_rows example_fields date_string_19723
        date_string_19737 date_string_19754)
  show ?thesis
    using a b ex example_log_db_reordered by simp
qed

lemma build_log_query_range:
  assumes "from \<noteq> []" and "to \<noteq> []" and "\<not> truthy (query_value limit)"
  shows "build_log_query p userId (Some from) (Some to) limit
           = \<lparr>q_user_id = userId, q_from = Some (Date_parse p from),
              q_to = Some (Date_parse p to), q_limit = None\<rparr>"
  using assms by (simp add: build_log_query_def query_value_def)

lemma Date_parse_iso:
  assumes "iso_date_only str = Some d"
  shows "Date_parse p str = Instant (d * msPerDay)"
  using assms by (simp add: Date_parse_def)

lemma local_day_of_iso:
  assumes "Date_parse p str = Instant t" and "iso_date_only str = Some d"
    and "0 \<le> tz_offset p" and "tz_offset p < 1440"
  shows "local_day p t = d"
proof -
  have "t = d * msPerDay"
    using assms(1,2) by (simp add: Date_parse_iso)
  then show ?thesis
    using assms(3,4) by (simp add: local_day_east)
qed

lemma local_day_of_iso_west:
  assumes "Date_parse p str = Instant t" and "iso_date_only str = Some d"
    and "- 1440 \<le> tz_offset p" and "tz_offset p < 0"
  shows "local_day p t = d - 1"
proof -
  have "t = d * msPerDay"
    using assms(1,2) by (simp add: Date_parse_iso)
  then show ?thesis
    using assms(3,4) by (simp add: local_day_west)
qed

lemma getLogs_between:
  assumes user: "select_user_by_id s userId = user # rest"
    and given: "from \<noteq> []" "to \<noteq> []"
    and dates: "Date_parse p from = Instant tf" "Date_parse p to = Instant tt"
    and nolimit: "\<not> truthy (query_value limit)"
  shows "getLogs p s userId (Some from) (Some to) limit tie
           = (Response 200
                (log_json p user
                   (order_by_date tie
                      (filter (\<lambda>e. e_user_id e = userId \<and> local_day p tf \<le> e_date e
                                    \<and> e_date e \<le> local_day p tt)
                         (exercises s)))),
              s, [SelectUserById, SelectExercises])"
proof -
  have "select_exercises p s (build_log_query p userId (Some from) (Some to) limit) tie
          = Inr (order_by_date tie
                   (filter (\<lambda>e. e_user_id e = userId \<and> local_day p tf \<le> e_date e
                                 \<and> e_date e \<le> local_day p tt)
                      (exercises s)))"
    unfolding build_log_query_range [OF given nolimit]
    by (simp add: select_exercises_def bind_date_def bind_limit_def pg_date_def dates
        apply_limit_def date_ge_def date_le_def)
  then show ?thesis
    using user by (simp add: getLogs_def)
qed

text \<open>
  C5. A log between two dates. When \<^verbatim>\<open>from\<close> and \<^verbatim>\<open>to\<close> are given and parse to dates, and
  there is no limit, the log of an existing user is a 200 response whose \<^verbatim>\<open>log\<close> holds one
  entry for each exercise of the user whose date lies between the two bounds, both
  included, and no other entry, in ascending order of date. A bound is the calendar day,
  in the server's time zone, of the instant that \<^verbatim>\<open>new Date\<close> gives for the parameter. For
  a parameter of the form \<^verbatim>\<open>YYYY-MM-DD\<close> that is the day the parameter names on a server on
  UTC or east of it, and the day before on a server west of UTC: there the exercises of
  the day \<^verbatim>\<open>to\<close> are left out, and those of the day before \<^verbatim>\<open>from\<close> are returned.
\<close>

theorem getLogs_range:
  fixes p :: platform and s :: db and userId :: string and tf tt :: int
    and tie :: "exercise_row \<Rightarrow> nat"
  defines "rows \<equiv> order_by_date tie
                     (filter (\<lambda>e. e_user_id e = userId \<and> local_day p tf \<le> e_date e
                                   \<and> e_date e \<le> local_day p tt)
                        (exercises s))"
    and "answer \<equiv> \<lambda>(user :: user_row) rows.
           JObject [(''_id'', JString (u_id user)),
                    (''username'', JString (u_username user)),
                    (''count'', JNumber (int (length rows))),
                    (''log'', JArray (map (\<lambda>e. JObject [(''description'', JString (e_description e)),
                                                           (''duration'', JNumber (e_duration e)),
                                                           (''date'', JString (date_string (e_date e)))])
                                        rows))]"
  assumes user: "select_user_by_id s userId = user # rest"
    and given: "from \<noteq> []" "to \<noteq> []"
    and dates: "Date_parse p from = Instant tf" "Date_parse p to = Instant tt"
    and nolimit: "\<not> truthy (query_value limit)"
  shows "getLogs p s userId (Some from) (Some to) limit tie
           = (Response 200 (answer user rows), s, [SelectUserById, SelectExercises])
         \<and> u_id user = userId
         \<and> sorted (map e_date rows)
         \<and> mset rows
             = filter_mset (\<lambda>e. e_user_id e = userId \<and> local_day p tf \<le> e_date e
                                 \<and> e_date e \<le> local_day p tt)
                 (mset (exercises s))
         \<and> (0 \<le> tz_offset p \<and> tz_offset p < 1440 \<and> iso_date_only from = Some dfrom
              \<and> iso_date_only to = Some dto
            \<longrightarrow> local_day p tf = dfrom \<and> local_day p tt = dto)
         \<and> (- 1440 \<le> tz_offset p \<and> tz_offset p < 0 \<and> iso_date_only from = Some dfrom
              \<and> iso_date_only to = Some dto
            \<longrightarrow> local_day p tf = dfrom - 1 \<and> local_day p tt = dto - 1)"
proof -
  have answer: "answer user rs = log_json p user rs" for rs
    unfolding answer_def by (simp add: log_json_explicit)
  have resp: "getLogs p s userId (Some from) (Some to) limit tie
           = (Response 200 (answer user rows), s, [SelectUserById, SelectExercises])"
    unfolding answer rows_def by (rule getLogs_between [OF user given dates nolimit])
  have uid: "u_id user = userId"
    using select_user_by_id_Cons [OF user] by simp
  have srt: "sorted (map e_date rows)"
    unfolding rows_def by (rule sorted_order_by_date)
  have all: "mset rows
             = filter_mset (\<lambda>e. e_user_id e = userId \<and> local_day p tf \<le> e_date e
                                 \<and> e_date e \<le> local_day p tt)
                 (mset (exercises s))"
    by (simp add: rows_def mset_order_by_date)
  have east: "local_day p tf = dfrom \<and> local_day p tt = dto"
    if "0 \<le> tz_offset p \<and> tz_offset p < 1440 \<and> iso_date_only from = Some dfrom
          \<and> iso_date_only to = Some dto"
    using that local_day_of_iso [OF dates(1)] local_day_of_iso [OF dates(2)] by simp
  have west: "local_day p tf = dfrom - 1 \<and> local_day p tt = dto - 1"
    if "- 1440 \<le> tz_offset p \<and> tz_offset p < 0 \<and> iso_date_only from = Some dfrom
          \<and> iso_date_only to = Some dto"
    using that local_day_of_iso_west [OF dates(1)] local_day_of_iso_west [OF dates(2)] by simp
  show ?thesis
    using resp uid srt all east west by blast
qed

lemma dec_value_more: "dec_value ''15'' = Some 15" "dec_value ''02'' = Some 2"
  by (simp_all add: dec_value_def is_digit_def digits_value_def digit_of_simps)

lemma days_from_civil_more:
  "days_from_civil 2024 1 15 = 19737" "days_from_civil 2024 2 1 = 19754"
  by (simp_all add: days_from_civil_def)

lemma iso_date_only_more:
  "iso_date_only ''2024-01-15'' = Some 19737" "iso_date_only ''2024-02-01'' = Some 19754"
  by (simp_all add: iso_date_only_def dec_value_examples dec_value_more DaysInMonth_def
      days_from_civil_more)

lemma example_bounds:
  "Date_parse example_platform ''2024-01-15'' = Instant 1705276800000"
  "Date_parse example_platform ''2024-02-01'' = Instant 1706745600000"
  "local_day example_platform 1705276800000 = 19737"
  "local_day example_platform 1706745600000 = 19754"
  by (simp_all add: Date_parse_def iso_date_only_more msPerDay_def local_day_def
      example_platform_def)

lemma example_bounds_west:
  "Date_parse example_platform_west ''2024-01-15'' = Instant 1705276800000"
  "Date_parse example_platform_west ''2024-02-01'' = Instant 1706745600000"
  "local_day example_platform_west 1705276800000 = 19736"
  "local_day example_platform_west 1706745600000 = 19753"
  by (simp_all add: Date_parse_def iso_date_only_more msPerDay_def local_day_def
      example_platform_west_def)

lemma no_limit: "\<not> truthy (query_value None)"
  by (simp add: query_value_def)

theorem getLogs_range_witness:
  "select_user_by_id example_log_db ''659200808''
     = \<lparr>u_id = ''659200808'', u_username = ''alice''\<rparr> # []
   \<and> ''2024-01-15'' \<noteq> [] \<and> ''2024-02-01'' \<noteq> []
   \<and> Date_parse example_platform ''2024-01-15'' = Instant 1705276800000
   \<and> Date_parse example_platform ''2024-02-01'' = Instant 1706745600000
   \<and> \<not> truthy (query_value None)
   \<and> 0 \<le> tz_offset example_platform \<and> tz_offset example_platform < 1440
   \<and> iso_date_only ''2024-01-15'' = Some 19737 \<and> iso_date_only ''2024-02-01'' = Some 19754
   \<and> exercises example_log_db = [example_swim, example_run, example_rowing]
   \<and> e_date example_run = 19723 \<and> e_date example_rowing = 19737
   \<and> e_date example_swim = 19754
   \<and> getLogs example_platform example_log_db ''659200808''
        (Some ''2024-01-15'') (Some ''2024-02-01'') None example_tie
       = (Response 200
            (JObject [(''_id'', JString ''659200808''), (''username'', JString ''alice''),
                      (''count'', JNumber 2),
                      (''log'', JArray
                         [JObject [(''description'', JString ''row''), (''duration'', JNumber 45),
                                   (''date'', JString ''Mon Jan 15 2024'')],
                          JObject [(''description'', JString ''swim''), (''duration'', JNumber 20),
                                   (''date'', JString ''Thu Feb 01 2024'')]])]),
          example_log_db, [SelectUserById, SelectExercises])"
proof -
  have rows: "order_by_date example_tie
                (filter (\<lambda>e. e_user_id e = ''659200808'' \<and> 19737 \<le> e_date e
                              \<and> e_date e \<le> 19754)
                   (exercises example_log_db))
              = [example_rowing, example_swim]"
    by (simp add: order_by_date_def example_tie_def example_log_db_def example_rows)
  have tz: "0 \<le> tz_offset example_platform" "tz_offset example_platform < 1440"
    by (simp_all add: example_platform_def)
  have ex: "exercises example_log_db = [example_swim, example_run, example_rowing]"
    by (simp add: example_log_db_def)
  have "getLogs example_platform example_log_db ''659200808''
        (Some ''2024-01-15'') (Some ''2024-02-01'') None example_tie
       = (Response 200
            (JObject [(''_id'', JString ''659200808''), (''username'', JString ''alice''),
                      (''count'', JNumber 2),
                      (''log'', JArray
                         [JObject [(''description'', JString ''row''), (''duration'', JNumber 45),
                                   (''date'', JString ''Mon Jan 15 2024'')],
                          JObject [(''description'', JString ''swim''), (''duration'', JNumber 20),
                                   (''date'', JString ''Thu Feb 01 2024'')]])]),
          example_log_db, [SelectUserById, SelectExercises])"
    using getLogs_range [where tie = example_tie and dfrom = 19737 and dto = 19754,
        OF select_user_by_id_example _ _ example_bounds(1,2) no_limit]
    by (simp add: example_bounds rows example_rows example_fields date_string_19737
        date_string_19754)
  then show ?thesis
    by (simp add: select_user_by_id_example example_bounds no_limit tz iso_date_only_more
        ex example_rows)
qed

theorem getLogs_range_counterexample:
  "getLogs example_platform_west example_log_db ''659200808''
        (Some ''2024-01-15'') (Some ''2024-02-01'') None example_tie
       = (Response 200
            (JObject [(''_id'', JString ''659200808''), (''username'', JString ''alice''),
                      (''count'', JNumber 1),
                      (''log'', JArray
                         [JObject [(''description'', JString ''row''), (''duration'', JNumber 45),
                                   (''date'', JString ''Mon Jan 15 2024'')]])]),
          example_log_db, [SelectUserById, SelectExercises])
   \<and> example_swim \<in> set (exercises example_log_db)
   \<and> e_user_id example_swim = ''659200808''
   \<and> e_date example_swim = 19754
   \<and> iso_date_only ''2024-01-15'' = Some 19737
   \<and> iso_date_only ''2024-02-01'' = Some 19754
   \<and> tz_offset example_platform_west = - 300"
proof -
  have rows: "order_by_date example_tie
                (filter (\<lambda>e. e_user_id e = ''659200808'' \<and> 19736 \<le> e_date e
                              \<and> e_date e \<le> 19753)
                   (exercises example_log_db))
              = [example_rowing]"
    by (simp add: order_by_date_def example_tie_def example_log_db_def example_rows)
  have "getLogs example_platform_west example_log_db ''659200808''
        (Some ''2024-01-15'') (Some ''2024-02-01'') None example_tie
       = (Response 200
            (log_json example_platform_west \<lparr>u_id = ''659200808'', u_username = ''alice''\<rparr>
               [example_rowing]),
          example_log_db, [SelectUserById, SelectExercises])"
    using getLogs_between [OF select_user_by_id_example _ _ example_bounds_west(1,2) no_limit,
        where tie = example_tie]
    by (simp add: example_bounds_west rows)
  then have "getLogs example_platform_west example_log_db ''659200808''
        (Some ''2024-01-15'') (Some ''2024-02-01'') None example_tie
       = (Response 200
            (JObject [(''_id'', JString ''659200808''), (''username'', JString ''alice''),
                      (''count'', JNumber 1),
                      (''log'', JArray
                         [JObject [(''description'', JString ''row''), (''duration'', JNumber 45),
                                   (''date'', JString ''Mon Jan 15 2024'')]])]),
          example_log_db, [SelectUserById, SelectExercises])"
    by (simp add: log_json_explicit example_fields example_rows date_string_19737)
  then show ?thesis
    by (simp add: example_log_db_def example_rows iso_date_only_more
        example_platform_west_def)
qed

lemma bind_limit_nat:
  "int k \<le> 9007199254740991 \<Longrightarrow> bind_limit p (Some (SafeInt (int k))) = Inr (Some k)"
  by (simp add: bind_limit_def)

lemma build_log_query_limit:
  assumes "k \<le> 9007199254740991"
  shows "build_log_query p userId None None (Some (dec_nat k))
     = \<lparr>q_user_id = userId, q_from = None, q_to = None, q_limit = Some (SafeInt (int k))\<rparr>"
  using dec_nat_digits [of k] assms
  by (simp add: build_log_query_def query_value_def parseInt_def parseInt_str_dec_nat)

lemma sorted_take_drop:
  assumes "sorted (map f xs)"
  shows "\<forall>x \<in> set (take k xs). \<forall>y \<in> set (drop k xs). f x \<le> f y"
proof -
  have "sorted (map f (take k xs) @ map f (drop k xs))"
    using assms by (simp add: map_append [symmetric] del: map_append)
  then show ?thesis
    by (auto simp: sorted_append)
qed

lemma getLogs_first:
  assumes user: "select_user_by_id s userId = user # rest"
    and k: "k \<le> 9007199254740991"
  shows "getLogs p s userId None None (Some (dec_nat k)) tie
           = (Response 200
                (log_json p user
                   (take k (order_by_date tie
                      (filter (\<lambda>e. e_user_id e = userId) (exercises s))))),
              s, [SelectUserById, SelectExercises])"
proof -
  have "select_exercises p s (build_log_query p userId None None (Some (dec_nat k))) tie
          = Inr (take k (order_by_date tie
                   (filter (\<lambda>e. e_user_id e = userId) (exercises s))))"
    unfolding build_log_query_limit [OF k]
    using k
    by (simp add: select_exercises_def bind_date_def bind_limit_nat apply_limit_def
        date_ge_def date_le_def)
  then show ?thesis
    using user by (simp add: getLogs_def)
qed

lemma getLogs_unlimited:
  assumes user: "select_user_by_id s userId = user # rest"
    and lo: "bind_date p (q_from (build_log_query p userId from to None)) = Inr lo"
    and hi: "bind_date p (q_to (build_log_query p userId from to None)) = Inr hi"
  shows "getLogs p s userId from to None tie
           = (Response 200
                (log_json p user
                   (order_by_date tie
                      (filter (\<lambda>e. e_user_id e = userId \<and> date_ge lo e \<and> date_le hi e)
                         (exercises s)))),
              s, [SelectUserById, SelectExercises])"
proof -
  have "q_limit (build_log_query p userId from to None) = None"
    "q_user_id (build_log_query p userId from to None) = userId"
    by (simp_all add: build_log_query_def query_value_def)
  then have "select_exercises p s (build_log_query p userId from to None) tie
               = Inr (order_by_date tie
                        (filter (\<lambda>e. e_user_id e = userId \<and> date_ge lo e \<and> date_le hi e)
                           (exercises s)))"
    using lo hi by (simp add: select_exercises_def bind_limit_def apply_limit_def)
  then show ?thesis
    using user by (simp add: getLogs_def)
qed

lemma dec_nat_2: "dec_nat 2 = ''2''"
  by (subst dec_nat.simps) (simp add: dec_digit_def)

lemma select_user_by_id_example_tie:
  "select_user_by_id example_tie_db ''659200808''
     = \<lparr>u_id = ''659200808'', u_username = ''alice''\<rparr> # []"
  by (simp add: select_user_by_id_def example_tie_db_def)

lemma example_tie_stored:
  "filter (\<lambda>e. e_user_id e = ''659200808'') (exercises example_tie_db)
     = [example_run, example_rowing, example_walk]"
  by (simp add: example_tie_db_def example_rows example_fields)

lemma order_by_date_example_tie:
  "order_by_date example_tie [example_run, example_rowing, example_walk]
     = [example_run, example_rowing, example_walk]"
  "order_by_date example_tie_reverse [example_run, example_rowing, example_walk]
     = [example_run, example_walk, example_rowing]"
  by (simp_all add: order_by_date_def example_rows example_fields example_tie_def
      example_tie_reverse)

text \<open>
  C6. A log with a limit. For an existing user with more than \<open>k\<close> exercises and \<open>k\<close>
  positive (and below 2^53, where a number of the language is exact), the limit \<open>k\<close>
  written in decimal gives a 200 response whose \<^verbatim>\<open>count\<close> is \<open>k\<close> and whose \<^verbatim>\<open>log\<close> holds
  exactly \<open>k\<close> entries, each for an exercise of the user, in ascending order of date. They
  are the \<open>k\<close> earliest: no exercise left out is dated before one returned, and the dates
  returned are the first \<open>k\<close> of the dates of the user's exercises in ascending order.
  Which exercises of one date are returned when the limit falls among them is the
  database's choice. Without a limit the log has an entry for every exercise of the
  user, and with bounds for every one between the bounds.
\<close>

theorem getLogs_limit:
  fixes s :: db and userId :: string and tie tie' :: "exercise_row \<Rightarrow> nat"
  defines "stored \<equiv> order_by_date tie (filter (\<lambda>e. e_user_id e = userId) (exercises s))"
    and "unlimited \<equiv> order_by_date tie' (filter (\<lambda>e. e_user_id e = userId) (exercises s))"
    and "answer \<equiv> \<lambda>(user :: user_row) rows.
           JObject [(''_id'', JString (u_id user)),
                    (''username'', JString (u_username user)),
                    (''count'', JNumber (int (length rows))),
                    (''log'', JArray (map (\<lambda>e. JObject [(''description'', JString (e_description e)),
                                                           (''duration'', JNumber (e_duration e)),
                                                           (''date'', JString (date_string (e_date e)))])
                                        rows))]"
  assumes user: "select_user_by_id s userId = user # rest"
    and k: "0 < k" "k < length (filter (\<lambda>e. e_user_id e = userId) (exercises s))"
      "k \<le> 9007199254740991"
  shows "getLogs p s userId None None (Some (dec_nat k)) tie
           = (Response 200 (answer user (take k stored)), s,
              [SelectUserById, SelectExercises])
         \<and> u_id user = userId
         \<and> length (take k stored) = k
         \<and> sorted (map e_date (take k stored))
         \<and> (\<forall>e \<in> set (take k stored). \<forall>e' \<in> set (drop k stored). e_date e \<le> e_date e')
         \<and> mset (take k stored) + mset (drop k stored)
             = filter_mset (\<lambda>e. e_user_id e = userId) (mset (exercises s))
         \<and> map e_date (take k stored)
             = take k (sort (map e_date (filter (\<lambda>e. e_user_id e = userId) (exercises s))))
         \<and> getLogs p s userId None None None tie'
             = (Response 200 (answer user unlimited), s, [SelectUserById, SelectExercises])
         \<and> mset unlimited = filter_mset (\<lambda>e. e_user_id e = userId) (mset (exercises s))
         \<and> (bind_date p (q_from (build_log_query p userId from to None)) = Inr lo
              \<and> bind_date p (q_to (build_log_query p userId from to None)) = Inr hi
            \<longrightarrow> (\<exists>rows. getLogs p s userId from to None tie'
                          = (Response 200 (answer user rows), s,
                             [SelectUserById, SelectExercises])
                    \<and> mset rows
                        = filter_mset (\<lambda>e. e_user_id e = userId \<and> date_ge lo e \<and> date_le hi e)
                            (mset (exercises s))))"
proof -
  have answer: "answer user rs = log_json p user rs" for rs
    unfolding answer_def by (simp add: log_json_explicit)
  have uid: "u_id user = userId"
    using select_user_by_id_Cons [OF user] by simp
  have len: "length (take k stored) = k"
    using k(2) by (simp add: stored_def length_order_by_date)
  have limited: "getLogs p s userId None None (Some (dec_nat k)) tie
           = (Response 200 (answer user (take k stored)), s,
              [SelectUserById, SelectExercises])"
    unfolding answer stored_def by (rule getLogs_first [OF user k(3)])
  have srt: "sorted (map e_date stored)"
    unfolding stored_def by (rule sorted_order_by_date)
  then have srt_k: "sorted (map e_date (take k stored))"
    by (simp add: take_map [symmetric] sorted_wrt_take)
  have earliest:
    "\<forall>e \<in> set (take k stored). \<forall>e' \<in> set (drop k stored). e_date e \<le> e_date e'"
    using srt by (rule sorted_take_drop)
  have "mset (take k stored) + mset (drop k stored) = mset stored"
    by (simp add: union_code)
  then have part: "mset (take k stored) + mset (drop k stored)
             = filter_mset (\<lambda>e. e_user_id e = userId) (mset (exercises s))"
    by (simp add: stored_def mset_order_by_date)
  have dates: "map e_date (take k stored)
             = take k (sort (map e_date (filter (\<lambda>e. e_user_id e = userId) (exercises s))))"
    unfolding stored_def take_map [symmetric] dates_order_by_date by (rule refl)
  have plain: "getLogs p s userId None None None tie'
             = (Response 200 (answer user unlimited), s, [SelectUserById, SelectExercises])"
    unfolding answer unlimited_def by (rule getLogs_plain [OF user])
  have all: "mset unlimited = filter_mset (\<lambda>e. e_user_id e = userId) (mset (exercises s))"
    by (simp add: unlimited_def mset_order_by_date)
  have nocap: "\<exists>rows. getLogs p s userId from to None tie'
                          = (Response 200 (answer user rows), s,
                             [SelectUserById, SelectExercises])
                    \<and> mset rows
                        = filter_mset (\<lambda>e. e_user_id e = userId \<and> date_ge lo e \<and> date_le hi e)
                            (mset (exercises s))"
    if "bind_date p (q_from (build_log_query p userId from to None)) = Inr lo
          \<and> bind_date p (q_to (build_log_query p userId from to None)) = Inr hi"
  proof -
    let ?rows = "order_by_date tie'
                      (filter (\<lambda>e. e_user_id e = userId \<and> date_ge lo e \<and> date_le hi e)
                         (exercises s))"
    have "getLogs p s userId from to None tie'
            = (Response 200 (answer user ?rows), s, [SelectUserById, SelectExercises])"
      unfolding answer using that by (simp add: getLogs_unlimited [OF user])
    moreover have "mset ?rows
                     = filter_mset (\<lambda>e. e_user_id e = userId \<and> date_ge lo e \<and> date_le hi e)
                         (mset (exercises s))"
      by (simp add: mset_order_by_date)
    ultimately show ?thesis by blast
  qed
  show ?thesis
    using limited uid len srt_k earliest part dates plain all nocap by blast
qed

theorem getLogs_limit_witness:
  "select_user_by_id example_tie_db ''659200808''
     = \<lparr>u_id = ''659200808'', u_username = ''alice''\<rparr> # []
   \<and> (0 :: nat) < 2
   \<and> 2 < length (filter (\<lambda>e. e_user_id e = ''659200808'') (exercises example_tie_db))
   \<and> dec_nat 2 = ''2''
   \<and> exercises example_tie_db = [example_run, example_rowing, example_walk]
   \<and> e_date example_run = 19723 \<and> e_date example_rowing = 19737
   \<and> e_date example_walk = 19737
   \<and> getLogs example_platform example_tie_db ''659200808'' None None (Some ''2'') example_tie
       = (Response 200
            (JObject [(''_id'', JString ''659200808''), (''username'', JString ''alice''),
                      (''count'', JNumber 2),
                      (''log'', JArray
                         [JObject [(''description'', JString ''run''), (''duration'', JNumber 30),
                                   (''date'', JString ''Mon Jan 01 2024'')],
                          JObject [(''description'', JString ''row''), (''duration'', JNumber 45),
                                   (''date'', JString ''Mon Jan 15 2024'')]])]),
          example_tie_db, [SelectUserById, SelectExercises])
   \<and> getLogs example_platform example_tie_db ''659200808'' None None (Some ''2'')
        example_tie_reverse
       = (Response 200
            (JObject [(''_id'', JString ''659200808''), (''username'', JString ''alice''),
                      (''count'', JNumber 2),
                      (''log'', JArray
                         [JObject [(''description'', JString ''run''), (''duration'', JNumber 30),
                                   (''date'', JString ''Mon Jan 01 2024'')],
                          JObject [(''description'', JString ''walk''), (''duration'', JNumber 25),
                                   (''date'', JString ''Mon Jan 15 2024'')]])]),
          example_tie_db, [SelectUserById, SelectExercises])
   \<and> getLogs example_platform example_tie_db ''659200808'' None None None example_tie_reverse
       = (Response 200
            (JObject [(''_id'', JString ''659200808''), (''username'', JString ''alice''),
                      (''count'', JNumber 3),
                      (''log'', JArray
                         [JObject [(''description'', JString ''run''), (''duration'', JNumber 30),
                                   (''date'', JString ''Mon Jan 01 2024'')],
                          JObject [(''description'', JString ''walk''), (''duration'', JNumber 25),
                                   (''date'', JString ''Mon Jan 15 2024'')],
                          JObject [(''description'', JString ''row''), (''duration'', JNumber 45),
                                   (''date'', JString ''Mon Jan 15 2024'')]])]),
          example_tie_db, [SelectUserById, SelectExercises])"
proof -
  have k: "(0 :: nat) < 2"
    "2 < length (filter (\<lambda>e. e_user_id e = ''659200808'') (exercises example_tie_db))"
    "(2 :: nat) \<le> 9007199254740991"
    by (simp_all add: example_tie_stored)
  have ex: "exercises example_tie_db = [example_run, example_rowing, example_walk]"
    by (simp add: example_tie_db_def)
  note stable = getLogs_limit [where p = example_platform and tie = example_tie
      and tie' = example_tie_reverse, OF select_user_by_id_example_tie k]
  note other = getLogs_limit [where p = example_platform and tie = example_tie_reverse
      and tie' = example_tie_reverse, OF select_user_by_id_example_tie k]
  from stable have a:
    "getLogs example_platform example_tie_db ''659200808'' None None (Some ''2'') example_tie
       = (Response 200
            (JObject [(''_id'', JString ''659200808''), (''username'', JString ''alice''),
                      (''count'', JNumber 2),
                      (''log'', JArray
                         [JObject [(''description'', JString ''run''), (''duration'', JNumber 30),
                                   (''date'', JString ''Mon Jan 01 2024'')],
                          JObject [(''description'', JString ''row''), (''duration'', JNumber 45),
                                   (''date'', JString ''Mon Jan 15 2024'')]])]),
          example_tie_db, [SelectUserById, SelectExercises])"
    by (simp add: dec_nat_2 example_tie_stored order_by_date_example_tie example_rows
        example_fields date_string_19723 date_string_19737)
  from other have b:
    "getLogs example_platform example_tie_db ''659200808'' None None (Some ''2'')
        example_tie_reverse
       = (Response 200
            (JObject [(''_id'', JString ''659200808''), (''username'', JString ''alice''),
                      (''count'', JNumber 2),
                      (''log'', JArray
                         [JObject [(''description'', JString ''run''), (''duration'', JNumber 30),
                                   (''date'', JString ''Mon Jan 01 2024'')],
                          JObject [(''description'', JString ''walk''), (''duration'', JNumber 25),
                                   (''date'', JString ''Mon Jan 15 2024'')]])]),
          example_tie_db, [SelectUserById, SelectExercises])"
    by (simp add: dec_nat_2 example_tie_stored order_by_date_example_tie example_rows
        example_fields date_string_19723 date_string_19737)
  from other have c:
    "getLogs example_platform example_tie_db ''659200808'' None None None example_tie_reverse
       = (Response 200
            (JObject [(''_id'', JString ''659200808''), (''username'', JString ''alice''),
                      (''count'', JNumber 3),
                      (''log'', JArray
                         [JObject [(''description'', JString ''run''), (''duration'', JNumber 30),
                                   (''date'', JString ''Mon Jan 01 2024'')],
                          JObject [(''description'', JString ''walk''), (''duration'', JNumber 25),
                                   (''date'', JString ''Mon Jan 15 2024'')],
                          JObject [(''description'', JString ''row''), (''duration'', JNumber 45),
                                   (''date'', JString ''Mon Jan 15 2024'')]])]),
          example_tie_db, [SelectUserById, SelectExercises])"
    by (simp add: dec_nat_2 example_tie_stored order_by_date_example_tie example_rows
        example_fields date_string_19723 date_string_19737)
  show ?thesis
    using a b c k(1,2) ex
    by (simp add: select_user_by_id_example_tie dec_nat_2 example_rows example_fields)
qed

end
